theory Spec2Isabelle
  imports Main "HOL-Library.Finite_Map"
begin

section \<open>Python values\<close>

text \<open>
  The module \<^verbatim>\<open>library/azure_rm_keyvault.py\<close> handles option values, request payloads
  and deserialised vaults, all of them JSON-like Python values: \<^verbatim>\<open>None\<close>, booleans,
  strings, lists and dictionaries keyed by strings. A dictionary is a finite map, so that
  equality of values is Python's \<^verbatim>\<open>==\<close> on them (the order of insertion plays no part
  in it). No number occurs among the values of this module.
\<close>

datatype pyval =
    PNone
  | PBool bool
  | PStr string
  | PList "pyval list"
  | PDict "(string, pyval) fmap"

type_synonym dict = "(string, pyval) fmap"

text \<open>Python's truth value, as tested by \<^verbatim>\<open>if x\<close>, \<^verbatim>\<open>if not x\<close> and \<^verbatim>\<open>while x\<close>.\<close>

fun truthy :: "pyval \<Rightarrow> bool" where
  "truthy PNone = False"
| "truthy (PBool b) = b"
| "truthy (PStr s) = (s \<noteq> [])"
| "truthy (PList xs) = (xs \<noteq> [])"
| "truthy (PDict d) = (d \<noteq> fmempty)"

text \<open>\<^verbatim>\<open>d.get(k, default)\<close>.\<close>

definition dict_get :: "dict \<Rightarrow> string \<Rightarrow> pyval \<Rightarrow> pyval" where
  "dict_get d k dflt = (case fmlookup d k of None \<Rightarrow> dflt | Some v \<Rightarrow> v)"

section \<open>The module object\<close>

text \<open>\<^verbatim>\<open>class Actions: NoAction, Create, Update, Delete = range(4)\<close>\<close>

datatype actions = NoAction | Create | Update | Delete

text \<open>
  What a call of the service client raises: \<^verbatim>\<open>CloudError\<close>, the one class that the
  handlers of the module name, or an exception of any other class (a request that could not
  be sent, a payload that the client refuses to serialise). Both carry their text.
\<close>

datatype exception = CloudError string | OtherError string

text \<open>
  The ways an invocation ends without a result: \<^verbatim>\<open>self.fail(msg)\<close> of the base class
  (which leaves the invocation with the message), the exceptions Python raises by itself
  on a missing key and on item access to a value that is no dictionary, and an exception of
  the service client that no handler caught, which leaves the invocation as it is.
\<close>

datatype failure = Fail string | KeyError string | TypeError | Propagated string

text \<open>
  The attributes of \<^verbatim>\<open>AzureRMVaults\<close> that \<^verbatim>\<open>exec_module\<close> reads and writes.
  \<^verbatim>\<open>check_mode\<close> is set by the base class from the hosting framework.
\<close>

record module =
  resource_group :: pyval
  vault_name :: pyval
  parameters :: dict
  results :: dict
  state :: pyval
  to_do :: actions
  check_mode :: bool

text \<open>\<^verbatim>\<open>__init__\<close> (lines 208 to 215).\<close>

definition init :: "bool \<Rightarrow> module" where
  "init cm =
     \<lparr> resource_group = PNone,
       vault_name = PNone,
       parameters = fmempty,
       results = fmupd ''changed'' (PBool False) fmempty,
       state = PNone,
       to_do = NoAction,
       check_mode = cm \<rparr>"

text \<open>The keys of \<^verbatim>\<open>module_arg_spec\<close> (lines 160 to 206), in the order of the literal.\<close>

definition module_arg_spec_keys :: "string list" where
  "module_arg_spec_keys =
     [''resource_group'', ''vault_name'', ''location'', ''tenant_id'', ''sku'',
      ''access_policies'', ''vault_uri'', ''enabled_for_deployment'',
      ''enabled_for_disk_encryption'', ''enabled_for_template_deployment'',
      ''enable_soft_delete'', ''create_mode'', ''state'']"

section \<open>Normalising the options (lines 224 to 249)\<close>

text \<open>
  \<^verbatim>\<open>self.parameters.setdefault("properties", {})[name] = value\<close>: the container is
  created when the key is missing, and the item is stored in the value found under the key.
  Item assignment on a value that is no dictionary raises \<^verbatim>\<open>TypeError\<close>.
\<close>

definition set_property :: "string \<Rightarrow> pyval \<Rightarrow> dict \<Rightarrow> failure + dict" where
  "set_property name v params =
     (case fmlookup params ''properties'' of
        None \<Rightarrow> Inr (fmupd ''properties'' (PDict (fmupd name v fmempty)) params)
      | Some (PDict props) \<Rightarrow> Inr (fmupd ''properties'' (PDict (fmupd name v props)) params)
      | Some _ \<Rightarrow> Inl TypeError)"

text \<open>
  The body of the loop over the keys. The keyword arguments are the parameters of the
  hosting framework, which hold every declared option (\<^verbatim>\<open>None\<close> when it was not
  supplied): \<open>kwargs key\<close> is \<^verbatim>\<open>kwargs[key]\<close>. \<^verbatim>\<open>hasattr(self, key)\<close> holds for the
  three options that \<^verbatim>\<open>__init__\<close> declares as attributes.
\<close>

definition assign_option :: "(string \<Rightarrow> pyval) \<Rightarrow> module \<Rightarrow> string \<Rightarrow> failure + module" where
  "assign_option kwargs self key =
     (if key = ''resource_group'' then Inr (self\<lparr>resource_group := kwargs key\<rparr>)
      else if key = ''vault_name'' then Inr (self\<lparr>vault_name := kwargs key\<rparr>)
      else if key = ''state'' then Inr (self\<lparr>state := kwargs key\<rparr>)
      else if kwargs key \<noteq> PNone then
        (if key = ''location'' then
           Inr (self\<lparr>parameters := fmupd ''location'' (kwargs key) (parameters self)\<rparr>)
         else if key = ''tenant_id'' \<or> key = ''sku'' \<or> key = ''access_policies''
               \<or> key = ''vault_uri'' \<or> key = ''enabled_for_deployment''
               \<or> key = ''enabled_for_disk_encryption''
               \<or> key = ''enabled_for_template_deployment''
               \<or> key = ''enable_soft_delete'' \<or> key = ''create_mode'' then
           (case set_property key (kwargs key) (parameters self) of
              Inl e \<Rightarrow> Inl e
            | Inr params \<Rightarrow> Inr (self\<lparr>parameters := params\<rparr>))
         else Inr self)
      else Inr self)"

fun collect_options :: "(string \<Rightarrow> pyval) \<Rightarrow> string list \<Rightarrow> module \<Rightarrow> failure + module" where
  "collect_options kwargs [] self = Inr self"
| "collect_options kwargs (key # keys) self =
     (case assign_option kwargs self key of
        Inl e \<Rightarrow> Inl e
      | Inr self' \<Rightarrow> collect_options kwargs keys self')"

text \<open>
  \<^verbatim>\<open>adjust_parameters\<close> (lines 314 to 319): the test is there, and no statement stands
  under it, only four comments that say where the fields \<^verbatim>\<open>keys\<close>, \<^verbatim>\<open>secrets\<close>,
  \<^verbatim>\<open>certificates\<close> and \<^verbatim>\<open>storage\<close> must go. Python does not accept a test without a
  body; the function is read here with the empty body, so both branches leave the object as
  it is. The test looks for \<^verbatim>\<open>access_policies\<close> at the top of the payload, where the loop
  never puts it.
\<close>

definition adjust_parameters :: "module \<Rightarrow> module" where
  "adjust_parameters self =
     (if dict_get (parameters self) ''access_policies'' PNone \<noteq> PNone then self else self)"

text \<open>\<^verbatim>\<open>rename_key\<close> (lines 321 to 325). No line of the module calls it.\<close>

definition rename_key :: "dict \<Rightarrow> string \<Rightarrow> string \<Rightarrow> dict" where
  "rename_key d old_name new_name =
     (let old_value = dict_get d old_name PNone
      in if old_value \<noteq> PNone then fmupd new_name old_value (fmdrop old_name d) else d)"

text \<open>The loop and the adjustment, together the normaliser of the request payload.\<close>

definition normalise :: "(string \<Rightarrow> pyval) \<Rightarrow> module \<Rightarrow> failure + module" where
  "normalise kwargs self =
     (case collect_options kwargs module_arg_spec_keys self of
        Inl e \<Rightarrow> Inl e
      | Inr self' \<Rightarrow> Inr (adjust_parameters self'))"

section \<open>The remote service\<close>

text \<open>
  The calls that leave the module, in the order they are made. \<^verbatim>\<open>time.sleep\<close> is
  recorded too, with its number of seconds.
\<close>

datatype call =
    ResourceGroupGet pyval
  | VaultGet pyval pyval
  | VaultCreateOrUpdate pyval pyval dict
  | VaultDelete pyval pyval
  | Sleep nat

text \<open>
  What \<^verbatim>\<open>vaults.create_or_update\<close> does: it raises, returns the vault (given by its
  \<^verbatim>\<open>as_dict()\<close>), or returns an \<^verbatim>\<open>AzureOperationPoller\<close>, on which
  \<^verbatim>\<open>get_poller_result\<close> raises or returns the vault.
\<close>

datatype cou_outcome =
    CouRaises exception
  | CouVault dict
  | CouPoller "exception + dict"

text \<open>
  The behaviour of the collaborators during one invocation. \<open>rg_lookup\<close> is
  \<^verbatim>\<open>get_resource_group\<close> of the base class: it ends the invocation with a message, or
  returns a resource group, given by its \<^verbatim>\<open>location\<close>. \<open>vaults_get n\<close> is the outcome of
  the call number \<open>n\<close> of \<^verbatim>\<open>vaults.get\<close>, counted from 0: the exception raised, or
  the vault. \<open>vaults_delete\<close> is the outcome of \<^verbatim>\<open>vaults.delete\<close>.
\<close>

record remote =
  rg_lookup :: "pyval \<Rightarrow> string + pyval"
  vaults_get :: "nat \<Rightarrow> exception + dict"
  vaults_create_or_update :: "dict \<Rightarrow> cou_outcome"
  vaults_delete :: "exception + unit"

text \<open>The calls made so far, and how many of them were \<^verbatim>\<open>vaults.get\<close>.\<close>

record world =
  trace :: "call list"
  gets :: nat

definition world0 :: world where
  "world0 = \<lparr> trace = [], gets = 0 \<rparr>"

definition emit :: "call \<Rightarrow> world \<Rightarrow> world" where
  "emit c w = w\<lparr>trace := trace w @ [c]\<rparr>"

text \<open>
  \<^verbatim>\<open>get_keyvault\<close> (lines 363 to 382): \<^verbatim>\<open>False\<close> when the call raised \<^verbatim>\<open>CloudError\<close>.
  The handler names that class only, so any other exception leaves the function.
\<close>

definition get_keyvault :: "remote \<Rightarrow> module \<Rightarrow> world \<Rightarrow> (failure + pyval) \<times> world" where
  "get_keyvault r self w =
     (let w' = (emit (VaultGet (resource_group self) (vault_name self)) w)\<lparr>gets := Suc (gets w)\<rparr>
      in case vaults_get r (gets w) of
           Inl (CloudError e) \<Rightarrow> (Inr (PBool False), w')
         | Inl (OtherError x) \<Rightarrow> (Inl (Propagated x), w')
         | Inr response \<Rightarrow> (Inr (PDict response), w'))"

text \<open>
  \<^verbatim>\<open>create_update_keyvault\<close> (lines 327 to 345). The call and the wait on the poller are
  under one \<^verbatim>\<open>try\<close>, whose handler catches \<^verbatim>\<open>CloudError\<close> and fails with the message.
\<close>

definition create_update_keyvault :: "remote \<Rightarrow> module \<Rightarrow> world \<Rightarrow> (failure + dict) \<times> world" where
  "create_update_keyvault r self w =
     (let w' = emit (VaultCreateOrUpdate (resource_group self) (vault_name self) (parameters self)) w
      in case vaults_create_or_update r (parameters self) of
           CouRaises (CloudError exc) \<Rightarrow>
             (Inl (Fail (''Error creating the Key Vault instance: '' @ exc)), w')
         | CouRaises (OtherError x) \<Rightarrow> (Inl (Propagated x), w')
         | CouVault response \<Rightarrow> (Inr response, w')
         | CouPoller (Inl (CloudError exc)) \<Rightarrow>
             (Inl (Fail (''Error creating the Key Vault instance: '' @ exc)), w')
         | CouPoller (Inl (OtherError x)) \<Rightarrow> (Inl (Propagated x), w')
         | CouPoller (Inr response) \<Rightarrow> (Inr response, w'))"

text \<open>\<^verbatim>\<open>delete_keyvault\<close> (lines 347 to 361), with the same kind of handler.\<close>

definition delete_keyvault :: "remote \<Rightarrow> module \<Rightarrow> world \<Rightarrow> (failure + bool) \<times> world" where
  "delete_keyvault r self w =
     (let w' = emit (VaultDelete (resource_group self) (vault_name self)) w
      in case vaults_delete r of
           Inl (CloudError e) \<Rightarrow>
             (Inl (Fail (''Error deleting the Key Vault instance: '' @ e)), w')
         | Inl (OtherError x) \<Rightarrow> (Inl (Propagated x), w')
         | Inr response \<Rightarrow> (Inr True, w'))"

section \<open>\<^verbatim>\<open>exec_module\<close>\<close>

text \<open>
  Lines 224 to 260: the options are normalised, the resource group is looked up, and the
  location of the payload defaults to the group's. The management client that the base class
  builds in between (lines 254 and 255) only serves the later calls.
\<close>

definition prepare :: "remote \<Rightarrow> (string \<Rightarrow> pyval) \<Rightarrow> module \<Rightarrow> world \<Rightarrow> (failure + module) \<times> world" where
  "prepare r kwargs self w =
     (case normalise kwargs self of
        Inl e \<Rightarrow> (Inl e, w)
      | Inr self1 \<Rightarrow>
          (let w1 = emit (ResourceGroupGet (resource_group self1)) w
           in case rg_lookup r (resource_group self1) of
                Inl msg \<Rightarrow> (Inl (Fail msg), w1)
              | Inr location \<Rightarrow>
                  (if fmlookup (parameters self1) ''location'' = None
                   then (Inr (self1\<lparr>parameters := fmupd ''location'' location (parameters self1)\<rparr>), w1)
                   else (Inr self1, w1))))"

text \<open>Lines 264 to 276: the action, from what was fetched and the desired state.\<close>

definition choose_action :: "pyval \<Rightarrow> module \<Rightarrow> module" where
  "choose_action old_response self =
     (if \<not> truthy old_response then
        (if state self = PStr ''absent'' then self else self\<lparr>to_do := Create\<rparr>)
      else
        (if state self = PStr ''absent'' then self\<lparr>to_do := Delete\<rparr>
         else if state self = PStr ''present'' then self\<lparr>to_do := Update\<rparr>
         else self))"

text \<open>Lines 262 to 276: the fetch and the choice.\<close>

definition decide :: "remote \<Rightarrow> module \<Rightarrow> world \<Rightarrow> (failure + pyval \<times> module) \<times> world" where
  "decide r self w =
     (case get_keyvault r self w of
        (Inl e, w') \<Rightarrow> (Inl e, w')
      | (Inr old_response, w') \<Rightarrow> (Inr (old_response, choose_action old_response self), w'))"

text \<open>
  Lines 302 and 303: \<^verbatim>\<open>while self.get_keyvault(): time.sleep(20)\<close>. The loop has no
  bound, so the function is partial: \<open>None\<close> is the loop that never ends. An exception
  that leaves \<^verbatim>\<open>get_keyvault\<close> leaves the loop too.
\<close>

partial_function (option) wait_deleted ::
  "remote \<Rightarrow> module \<Rightarrow> world \<Rightarrow> ((failure + unit) \<times> world) option" where
  "wait_deleted r self w =
     (case get_keyvault r self w of
        (Inl e, w') \<Rightarrow> Some (Inl e, w')
      | (Inr response, w') \<Rightarrow>
          if truthy response then wait_deleted r self (emit (Sleep 20) w') else Some (Inr (), w'))"

text \<open>
  Lines 309 to 312: the identifier goes into the results when there is a response.
\<close>

definition finish :: "pyval \<Rightarrow> dict \<Rightarrow> failure + dict" where
  "finish response res =
     (if truthy response then
        (case response of
           PDict d \<Rightarrow>
             (case fmlookup d ''id'' of
                None \<Rightarrow> Inl (KeyError ''id'')
              | Some v \<Rightarrow> Inr (fmupd ''id'' v res))
         | _ \<Rightarrow> Inl TypeError)
      else Inr res)"

text \<open>
  Lines 278 to 312. \<open>old_response\<close> is what \<^verbatim>\<open>get_keyvault\<close> returned, so
  \<^verbatim>\<open>old_response.__ne__(response)\<close> on a true \<open>old_response\<close> is the inequality of two
  dictionaries.
\<close>

definition act :: "remote \<Rightarrow> pyval \<Rightarrow> module \<Rightarrow> world \<Rightarrow> ((failure + dict) \<times> world) option" where
  "act r old_response self w =
     (if to_do self = Create \<or> to_do self = Update then
        (if check_mode self then Some (Inr (fmupd ''changed'' (PBool True) (results self)), w)
         else
           (case create_update_keyvault r self w of
              (Inl e, w') \<Rightarrow> Some (Inl e, w')
            | (Inr response, w') \<Rightarrow>
                (let res = (if \<not> truthy old_response
                            then fmupd ''changed'' (PBool True) (results self)
                            else fmupd ''changed'' (PBool (old_response \<noteq> PDict response)) (results self))
                 in Some (finish (PDict response) res, w'))))
      else if to_do self = Delete then
        (let res = fmupd ''changed'' (PBool True) (results self)
         in if check_mode self then Some (Inr res, w)
            else
              (case delete_keyvault r self w of
                 (Inl e, w') \<Rightarrow> Some (Inl e, w')
               | (Inr ok, w') \<Rightarrow>
                   (case wait_deleted r self w' of
                      None \<Rightarrow> None
                    | Some (Inl e, w'') \<Rightarrow> Some (Inl e, w'')
                    | Some (Inr done, w'') \<Rightarrow> Some (finish PNone res, w''))))
      else Some (finish old_response (fmupd ''changed'' (PBool False) (results self)), w))"

definition exec_module :: "remote \<Rightarrow> (string \<Rightarrow> pyval) \<Rightarrow> module \<Rightarrow> world \<Rightarrow> ((failure + dict) \<times> world) option" where
  "exec_module r kwargs self w =
     (case prepare r kwargs self w of
        (Inl e, w1) \<Rightarrow> Some (Inl e, w1)
      | (Inr self1, w1) \<Rightarrow>
          (case decide r self1 w1 of
             (Inl e, w2) \<Rightarrow> Some (Inl e, w2)
           | (Inr (old_response, self2), w2) \<Rightarrow> act r old_response self2 w2))"

text \<open>The action an invocation selects: \<open>None\<close> when it ended before the choice.\<close>

definition selected_action :: "remote \<Rightarrow> (string \<Rightarrow> pyval) \<Rightarrow> module \<Rightarrow> world \<Rightarrow> actions option" where
  "selected_action r kwargs self w =
     (case prepare r kwargs self w of
        (Inl e, w1) \<Rightarrow> None
      | (Inr self1, w1) \<Rightarrow>
          (case decide r self1 w1 of
             (Inl e, w2) \<Rightarrow> None
           | (Inr (old_response, self2), w2) \<Rightarrow> Some (to_do self2)))"

section \<open>Notions used in the statements and proofs\<close>

text \<open>
  The nine options that go under \<^verbatim>\<open>properties\<close>, the content of that container (empty when
  the container is missing), and the effect of one round of the loop on the payload.
\<close>

definition property_keys :: "string list" where
  "property_keys =
     [''tenant_id'', ''sku'', ''access_policies'', ''vault_uri'', ''enabled_for_deployment'',
      ''enabled_for_disk_encryption'', ''enabled_for_template_deployment'',
      ''enable_soft_delete'', ''create_mode'']"

definition properties_of :: "dict \<Rightarrow> dict" where
  "properties_of params =
     (case fmlookup params ''properties'' of Some (PDict props) \<Rightarrow> props | _ \<Rightarrow> fmempty)"

definition props_ok :: "dict \<Rightarrow> bool" where
  "props_ok params =
     (case fmlookup params ''properties'' of None \<Rightarrow> True | Some (PDict props) \<Rightarrow> True | _ \<Rightarrow> False)"

definition put_option :: "(string \<Rightarrow> pyval) \<Rightarrow> string \<Rightarrow> dict \<Rightarrow> dict" where
  "put_option kwargs key params =
     (if kwargs key = PNone then params
      else if key = ''location'' then fmupd ''location'' (kwargs key) params
      else if key \<in> set property_keys
        then fmupd ''properties'' (PDict (fmupd key (kwargs key) (properties_of params))) params
      else params)"

definition set_attr :: "(string \<Rightarrow> pyval) \<Rightarrow> string \<Rightarrow> module \<Rightarrow> module" where
  "set_attr kwargs key self =
     (if key = ''resource_group'' then self\<lparr>resource_group := kwargs key\<rparr>
      else if key = ''vault_name'' then self\<lparr>vault_name := kwargs key\<rparr>
      else if key = ''state'' then self\<lparr>state := kwargs key\<rparr>
      else self\<lparr>parameters := put_option kwargs key (parameters self)\<rparr>)"

definition payload :: "(string \<Rightarrow> pyval) \<Rightarrow> dict" where
  "payload kwargs = foldl (\<lambda>p k. put_option kwargs k p) fmempty module_arg_spec_keys"

definition normalised :: "(string \<Rightarrow> pyval) \<Rightarrow> bool \<Rightarrow> module" where
  "normalised kwargs cm =
     \<lparr> resource_group = kwargs ''resource_group'',
       vault_name = kwargs ''vault_name'',
       parameters = payload kwargs,
       results = fmupd ''changed'' (PBool False) fmempty,
       state = kwargs ''state'',
       to_do = NoAction,
       check_mode = cm \<rparr>"

text \<open>
  What \<^verbatim>\<open>get_keyvault\<close> returns on the call number \<open>n\<close> of \<^verbatim>\<open>vaults.get\<close>, the payload
  at the time of dispatch, and the module object after lines 224 to 260.
\<close>

definition fetched :: "remote \<Rightarrow> nat \<Rightarrow> failure + pyval" where
  "fetched r n =
     (case vaults_get r n of
        Inl (CloudError e) \<Rightarrow> Inr (PBool False)
      | Inl (OtherError x) \<Rightarrow> Inl (Propagated x)
      | Inr response \<Rightarrow> Inr (PDict response))"

text \<open>The fetch number \<open>n\<close> finds the vault: the test of the polling loop holds.\<close>

definition finds :: "remote \<Rightarrow> nat \<Rightarrow> bool" where
  "finds r n = (case fetched r n of Inl e \<Rightarrow> False | Inr response \<Rightarrow> truthy response)"

definition dispatch_payload :: "(string \<Rightarrow> pyval) \<Rightarrow> pyval \<Rightarrow> dict" where
  "dispatch_payload kwargs location =
     (if kwargs ''location'' = PNone then fmupd ''location'' location (payload kwargs)
      else payload kwargs)"

definition prepared :: "(string \<Rightarrow> pyval) \<Rightarrow> bool \<Rightarrow> pyval \<Rightarrow> module" where
  "prepared kwargs cm location = (normalised kwargs cm)\<lparr>parameters := dispatch_payload kwargs location\<rparr>"

text \<open>The polling of lines 302 and 303, as a list of calls: \<open>k\<close> fetches that found the vault.\<close>

definition polls :: "pyval \<Rightarrow> pyval \<Rightarrow> nat \<Rightarrow> call list" where
  "polls rg name k = concat (replicate k [VaultGet rg name, Sleep 20]) @ [VaultGet rg name]"

text \<open>
  The vault that \<^verbatim>\<open>create_update_keyvault\<close> obtains for a payload, at once or from the
  poller, and the exception raised instead. A call is mutating when it is
  \<^verbatim>\<open>create_or_update\<close> or \<^verbatim>\<open>delete\<close>.
\<close>

definition created :: "remote \<Rightarrow> dict \<Rightarrow> dict option" where
  "created r p =
     (case vaults_create_or_update r p of
        CouRaises exc \<Rightarrow> None
      | CouVault response \<Rightarrow> Some response
      | CouPoller (Inl exc) \<Rightarrow> None
      | CouPoller (Inr response) \<Rightarrow> Some response)"

definition raised :: "remote \<Rightarrow> dict \<Rightarrow> exception option" where
  "raised r p =
     (case vaults_create_or_update r p of
        CouRaises exc \<Rightarrow> Some exc
      | CouVault response \<Rightarrow> None
      | CouPoller (Inl exc) \<Rightarrow> Some exc
      | CouPoller (Inr response) \<Rightarrow> None)"

fun mutating :: "call \<Rightarrow> bool" where
  "mutating (VaultCreateOrUpdate rg name p) = True"
| "mutating (VaultDelete rg name) = True"
| "mutating c = False"

text \<open>
  Concrete invocations. \<open>kwargs_of\<close> completes the options that were supplied with
  \<^verbatim>\<open>None\<close> for every other one, as the hosting framework does. The vault \<^verbatim>\<open>kv1\<close> of the
  resource group \<^verbatim>\<open>rg1\<close> is missing, found (and gone at the third fetch), found for ever,
  or behind a service that refuses to change it; one remote does not know the group, one
  cannot be reached (the client raises, and not \<^verbatim>\<open>CloudError\<close>), and one refuses the
  payload before it is sent.
\<close>

definition kwargs_of :: "(string \<times> pyval) list \<Rightarrow> string \<Rightarrow> pyval" where
  "kwargs_of opts key = (case map_of opts key of None \<Rightarrow> PNone | Some v \<Rightarrow> v)"

definition sku_standard :: dict where
  "sku_standard = fmupd ''family'' (PStr ''A'') (fmupd ''name'' (PStr ''standard'') fmempty)"

definition policy_entry :: dict where
  "policy_entry =
     fmupd ''tenant_id'' (PStr ''t1'')
       (fmupd ''object_id'' (PStr ''o1'') (fmupd ''keys'' (PList [PStr ''get'']) fmempty))"

definition kwargs_present :: "string \<Rightarrow> pyval" where
  "kwargs_present =
     kwargs_of [(''resource_group'', PStr ''rg1''), (''vault_name'', PStr ''kv1''),
                (''state'', PStr ''present''), (''sku'', PDict sku_standard)]"

definition kwargs_located :: "string \<Rightarrow> pyval" where
  "kwargs_located =
     kwargs_of [(''resource_group'', PStr ''rg1''), (''vault_name'', PStr ''kv1''),
                (''state'', PStr ''present''), (''location'', PStr ''eastus'')]"

definition kwargs_absent :: "string \<Rightarrow> pyval" where
  "kwargs_absent =
     kwargs_of [(''resource_group'', PStr ''rg1''), (''vault_name'', PStr ''kv1''),
                (''state'', PStr ''absent'')]"

definition kwargs_policy :: "string \<Rightarrow> pyval" where
  "kwargs_policy =
     kwargs_of [(''resource_group'', PStr ''rg1''), (''vault_name'', PStr ''kv1''),
                (''state'', PStr ''present''), (''access_policies'', PList [PDict policy_entry])]"

definition vault_kv1 :: dict where
  "vault_kv1 = fmupd ''id'' (PStr ''/vaults/kv1'') (fmupd ''location'' (PStr ''westus'') fmempty)"

definition vault_kv1_new :: dict where
  "vault_kv1_new = fmupd ''id'' (PStr ''/vaults/kv1'') (fmupd ''location'' (PStr ''eastus'') fmempty)"

definition remote_missing :: remote where
  "remote_missing =
     \<lparr> rg_lookup = (\<lambda>rg. Inr (PStr ''westus'')),
       vaults_get = (\<lambda>n. Inl (CloudError ''NotFound'')),
       vaults_create_or_update = (\<lambda>p. CouVault vault_kv1),
       vaults_delete = Inr () \<rparr>"

definition remote_found :: remote where
  "remote_found =
     \<lparr> rg_lookup = (\<lambda>rg. Inr (PStr ''westus'')),
       vaults_get = (\<lambda>n. if n < 2 then Inr vault_kv1 else Inl (CloudError ''NotFound'')),
       vaults_create_or_update = (\<lambda>p. CouPoller (Inr vault_kv1_new)),
       vaults_delete = Inr () \<rparr>"

definition remote_stuck :: remote where
  "remote_stuck =
     \<lparr> rg_lookup = (\<lambda>rg. Inr (PStr ''westus'')),
       vaults_get = (\<lambda>n. Inr vault_kv1),
       vaults_create_or_update = (\<lambda>p. CouVault vault_kv1),
       vaults_delete = Inr () \<rparr>"

definition remote_failing :: remote where
  "remote_failing =
     \<lparr> rg_lookup = (\<lambda>rg. Inr (PStr ''westus'')),
       vaults_get = (\<lambda>n. Inr vault_kv1),
       vaults_create_or_update = (\<lambda>p. CouRaises (CloudError ''Forbidden'')),
       vaults_delete = Inl (CloudError ''Forbidden'') \<rparr>"

definition remote_no_group :: remote where
  "remote_no_group =
     \<lparr> rg_lookup = (\<lambda>rg. Inl ''Resource group rg1 not found''),
       vaults_get = (\<lambda>n. Inr vault_kv1),
       vaults_create_or_update = (\<lambda>p. CouVault vault_kv1),
       vaults_delete = Inr () \<rparr>"

definition remote_unreachable :: remote where
  "remote_unreachable =
     \<lparr> rg_lookup = (\<lambda>rg. Inr (PStr ''westus'')),
       vaults_get = (\<lambda>n. Inl (OtherError ''ClientRequestError'')),
       vaults_create_or_update = (\<lambda>p. CouVault vault_kv1),
       vaults_delete = Inr () \<rparr>"

definition remote_invalid :: remote where
  "remote_invalid =
     \<lparr> rg_lookup = (\<lambda>rg. Inr (PStr ''westus'')),
       vaults_get = (\<lambda>n. Inl (CloudError ''NotFound'')),
       vaults_create_or_update = (\<lambda>p. CouRaises (OtherError ''ValidationError'')),
       vaults_delete = Inr () \<rparr>"

section \<open>The normaliser\<close>

lemma set_property_ok:
  "props_ok params \<Longrightarrow>
   set_property name v params = Inr (fmupd ''properties'' (PDict (fmupd name v (properties_of params))) params)"
  by (auto simp: props_ok_def set_property_def properties_of_def split: option.splits pyval.splits)

lemma assign_option_ok:
  assumes "props_ok (parameters self)"
  shows "assign_option kwargs self key = Inr (set_attr kwargs key self)"
  using set_property_ok[OF assms]
  by (auto simp: assign_option_def set_attr_def put_option_def property_keys_def)

lemma props_ok_put: "props_ok params \<Longrightarrow> props_ok (put_option kwargs key params)"
  by (auto simp: props_ok_def put_option_def split: option.splits pyval.splits)

lemma props_ok_set_attr: "props_ok (parameters self) \<Longrightarrow> props_ok (parameters (set_attr kwargs key self))"
  by (simp add: set_attr_def props_ok_put)

lemma collect_options_ok:
  "props_ok (parameters self) \<Longrightarrow>
   collect_options kwargs keys self = Inr (foldl (\<lambda>s k. set_attr kwargs k s) self keys)"
  by (induction keys arbitrary: self) (simp_all add: assign_option_ok props_ok_set_attr)

lemma parameters_set_attr: "parameters (set_attr kwargs key self) = put_option kwargs key (parameters self)"
  by (simp add: set_attr_def put_option_def property_keys_def)

lemma parameters_foldl:
  "parameters (foldl (\<lambda>s k. set_attr kwargs k s) self keys)
   = foldl (\<lambda>p k. put_option kwargs k p) (parameters self) keys"
  by (induction keys arbitrary: self) (simp_all add: parameters_set_attr)

lemma put_location:
  "fmlookup (put_option kwargs key params) ''location''
   = (if key = ''location'' \<and> kwargs key \<noteq> PNone then Some (kwargs key) else fmlookup params ''location'')"
  by (simp add: put_option_def)

lemma properties_of_put:
  "properties_of (put_option kwargs key params)
   = (if key \<in> set property_keys \<and> kwargs key \<noteq> PNone
      then fmupd key (kwargs key) (properties_of params) else properties_of params)"
  by (auto simp: put_option_def properties_of_def property_keys_def)

lemma put_properties:
  "fmlookup (put_option kwargs key params) ''properties''
   = (if key \<in> set property_keys \<and> kwargs key \<noteq> PNone
      then Some (PDict (properties_of (put_option kwargs key params))) else fmlookup params ''properties'')"
  by (auto simp: put_option_def properties_of_def property_keys_def)

lemma put_other:
  "k \<noteq> ''location'' \<Longrightarrow> k \<noteq> ''properties'' \<Longrightarrow>
   fmlookup (put_option kwargs key params) k = fmlookup params k"
  by (simp add: put_option_def)

lemma foldl_put_location:
  "fmlookup (foldl (\<lambda>p k. put_option kwargs k p) params keys) ''location''
   = (if ''location'' \<in> set keys \<and> kwargs ''location'' \<noteq> PNone
      then Some (kwargs ''location'') else fmlookup params ''location'')"
  by (induction keys rule: rev_induct) (auto simp: put_location)

lemma foldl_put_property:
  "fmlookup (properties_of (foldl (\<lambda>p k. put_option kwargs k p) params keys)) k
   = (if k \<in> set keys \<and> k \<in> set property_keys \<and> kwargs k \<noteq> PNone
      then Some (kwargs k) else fmlookup (properties_of params) k)"
  by (induction keys rule: rev_induct) (auto simp: properties_of_put)

lemma foldl_put_properties:
  "fmlookup (foldl (\<lambda>p k. put_option kwargs k p) params keys) ''properties''
   = (if \<exists>k \<in> set keys. k \<in> set property_keys \<and> kwargs k \<noteq> PNone
      then Some (PDict (properties_of (foldl (\<lambda>p k. put_option kwargs k p) params keys)))
      else fmlookup params ''properties'')"
proof (induction keys rule: rev_induct)
  case Nil
  show ?case by simp
next
  case (snoc key keys)
  show ?case
  proof (cases "key \<in> set property_keys \<and> kwargs key \<noteq> PNone")
    case True
    then show ?thesis by (auto simp: put_properties)
  next
    case False
    then have "properties_of (put_option kwargs key (foldl (\<lambda>p k. put_option kwargs k p) params keys))
               = properties_of (foldl (\<lambda>p k. put_option kwargs k p) params keys)"
      by (auto simp: properties_of_put)
    with False snoc show ?thesis by (auto simp: put_properties)
  qed
qed

lemma foldl_put_other:
  "k \<noteq> ''location'' \<Longrightarrow> k \<noteq> ''properties'' \<Longrightarrow>
   fmlookup (foldl (\<lambda>p k. put_option kwargs k p) params keys) k = fmlookup params k"
  by (induction keys rule: rev_induct) (simp_all add: put_other)

lemma props_ok_init: "props_ok (parameters (init cm))"
  by (simp add: props_ok_def init_def)

lemma set_attr_simps:
  "set_attr kwargs ''resource_group'' self = self\<lparr>resource_group := kwargs ''resource_group''\<rparr>"
  "set_attr kwargs ''vault_name'' self = self\<lparr>vault_name := kwargs ''vault_name''\<rparr>"
  "set_attr kwargs ''state'' self = self\<lparr>state := kwargs ''state''\<rparr>"
  by (simp_all add: set_attr_def)

lemma foldl_set_attr_init:
  "foldl (\<lambda>s k. set_attr kwargs k s) (init cm) module_arg_spec_keys = normalised kwargs cm"
proof -
  let ?N = "foldl (\<lambda>s k. set_attr kwargs k s) (init cm) module_arg_spec_keys"
  have p: "parameters ?N = payload kwargs"
    by (simp add: parameters_foldl payload_def init_def)
  have a: "resource_group ?N = kwargs ''resource_group''" "vault_name ?N = kwargs ''vault_name''"
      "state ?N = kwargs ''state''" "results ?N = fmupd ''changed'' (PBool False) fmempty"
      "to_do ?N = NoAction" "check_mode ?N = cm"
    by (simp_all add: module_arg_spec_keys_def set_attr_def init_def)
  show ?thesis
    by (rule module.equality) (simp_all add: p a normalised_def)
qed

lemma adjust_parameters_id: "adjust_parameters self = self"
  by (simp add: adjust_parameters_def)

lemma normalise_init: "normalise kwargs (init cm) = Inr (normalised kwargs cm)"
  by (simp add: normalise_def collect_options_ok props_ok_init foldl_set_attr_init adjust_parameters_id)

lemma payload_location:
  "fmlookup (payload kwargs) ''location''
   = (if kwargs ''location'' = PNone then None else Some (kwargs ''location''))"
  unfolding payload_def foldl_put_location
  by (simp add: module_arg_spec_keys_def)

lemma payload_property:
  "fmlookup (properties_of (payload kwargs)) k
   = (if k \<in> set property_keys \<and> kwargs k \<noteq> PNone then Some (kwargs k) else None)"
  unfolding payload_def foldl_put_property
  by (auto simp: module_arg_spec_keys_def property_keys_def properties_of_def)

lemma payload_properties:
  "fmlookup (payload kwargs) ''properties''
   = (if \<forall>k \<in> set property_keys. kwargs k = PNone then None
      else Some (PDict (properties_of (payload kwargs))))"
  unfolding payload_def foldl_put_properties
  by (simp add: module_arg_spec_keys_def property_keys_def)

lemma payload_other:
  "k \<noteq> ''location'' \<Longrightarrow> k \<noteq> ''properties'' \<Longrightarrow> fmlookup (payload kwargs) k = None"
  by (simp add: payload_def foldl_put_other)

section \<open>What an invocation does\<close>

lemma get_keyvault_eq:
  "get_keyvault r self w =
     (fetched r (gets w),
      \<lparr> trace = trace w @ [VaultGet (resource_group self) (vault_name self)], gets = Suc (gets w) \<rparr>)"
  by (simp add: get_keyvault_def fetched_def emit_def split: sum.splits exception.splits)

lemma fetched_cloud_error: "vaults_get r n = Inl (CloudError e) \<Longrightarrow> fetched r n = Inr (PBool False)"
  by (simp add: fetched_def)

lemma fetched_other_error: "vaults_get r n = Inl (OtherError x) \<Longrightarrow> fetched r n = Inl (Propagated x)"
  by (simp add: fetched_def)

lemma fetched_vault: "vaults_get r n = Inr d \<Longrightarrow> fetched r n = Inr (PDict d)"
  by (simp add: fetched_def)

lemma wait_deleted_stop:
  "\<not> finds r (gets w) \<Longrightarrow>
   wait_deleted r self w =
     Some (case fetched r (gets w) of Inl e \<Rightarrow> Inl e | Inr response \<Rightarrow> Inr (),
           \<lparr> trace = trace w @ [VaultGet (resource_group self) (vault_name self)],
             gets = Suc (gets w) \<rparr>)"
  by (subst wait_deleted.simps) (simp add: get_keyvault_eq finds_def split: sum.splits)

lemma wait_deleted_go:
  "finds r (gets w) \<Longrightarrow>
   wait_deleted r self w =
     wait_deleted r self
       \<lparr> trace = trace w @ [VaultGet (resource_group self) (vault_name self), Sleep 20],
         gets = Suc (gets w) \<rparr>"
  by (subst wait_deleted.simps) (simp add: get_keyvault_eq emit_def finds_def split: sum.splits)

lemma wait_deleted_first:
  "(\<forall>j<k. finds r (gets w + j)) \<Longrightarrow> \<not> finds r (gets w + k) \<Longrightarrow>
   wait_deleted r self w =
     Some (case fetched r (gets w + k) of Inl e \<Rightarrow> Inl e | Inr response \<Rightarrow> Inr (),
           \<lparr> trace = trace w @ polls (resource_group self) (vault_name self) k,
             gets = gets w + k + 1 \<rparr>)"
proof (induction k arbitrary: w)
  case 0
  then show ?case by (simp add: wait_deleted_stop polls_def)
next
  case (Suc k)
  let ?w = "\<lparr> trace = trace w @ [VaultGet (resource_group self) (vault_name self), Sleep 20],
              gets = Suc (gets w) \<rparr>"
  from Suc.prems have now: "finds r (gets w)" by auto
  from Suc.prems have later: "\<forall>j<k. finds r (gets ?w + j)"
    by (auto dest: spec[where x = "Suc j" for j])
  from Suc.prems have last: "\<not> finds r (gets ?w + k)" by simp
  show ?case
    using Suc.IH[OF later last] by (simp add: wait_deleted_go[OF now] polls_def)
qed

lemma wait_deleted_returns:
  assumes "wait_deleted r self w = Some x"
  shows "\<exists>k. \<not> finds r (gets w + k)"
proof (rule wait_deleted.raw_induct
    [where P = "\<lambda>r self w x. \<exists>k. \<not> finds r (gets w + k)", OF _ assms])
  fix f :: "remote \<Rightarrow> module \<Rightarrow> world \<Rightarrow> ((failure + unit) \<times> world) option"
    and r :: remote and self :: module and w :: world and x :: "(failure + unit) \<times> world"
  assume IH: "\<And>r self w x. f r self w = Some x \<Longrightarrow> \<exists>k. \<not> finds r (gets w + k)"
  assume step: "(case get_keyvault r self w of
                   (Inl e, w') \<Rightarrow> Some (Inl e, w')
                 | (Inr response, w') \<Rightarrow>
                     if truthy response then f r self (emit (Sleep 20) w') else Some (Inr (), w'))
                = Some x"
  show "\<exists>k. \<not> finds r (gets w + k)"
  proof (cases "finds r (gets w)")
    case False
    then have "\<not> finds r (gets w + 0)" by simp
    then show ?thesis by blast
  next
    case True
    with step have "f r self \<lparr> trace = trace w @ [VaultGet (resource_group self) (vault_name self), Sleep 20],
         gets = Suc (gets w) \<rparr> = Some x"
      by (simp add: get_keyvault_eq emit_def finds_def split: sum.splits)
    from IH[OF this] obtain k where "\<not> finds r (Suc (gets w) + k)" by auto
    then have "\<not> finds r (gets w + Suc k)" by simp
    then show ?thesis by blast
  qed
qed

lemma wait_deleted_iff:
  "(wait_deleted r self w \<noteq> None) = (\<exists>k. \<not> finds r (gets w + k))"
proof
  assume "wait_deleted r self w \<noteq> None"
  then show "\<exists>k. \<not> finds r (gets w + k)"
    using wait_deleted_returns by blast
next
  assume "\<exists>k. \<not> finds r (gets w + k)"
  then obtain k where k: "\<not> finds r (gets w + k)"
    and least: "\<forall>j<k. finds r (gets w + j)"
    using exists_least_iff[of "\<lambda>k. \<not> finds r (gets w + k)"] by auto
  show "wait_deleted r self w \<noteq> None"
    using wait_deleted_first[OF least k] by simp
qed

lemma wait_deleted_Some:
  assumes "wait_deleted r self w = Some (x, w')"
  shows "\<exists>k. w' = \<lparr> trace = trace w @ polls (resource_group self) (vault_name self) k,
                     gets = gets w + k + 1 \<rparr>"
proof -
  from wait_deleted_returns[OF assms]
  obtain k where k: "\<not> finds r (gets w + k)"
    and least: "\<forall>j<k. finds r (gets w + j)"
    using exists_least_iff[of "\<lambda>k. \<not> finds r (gets w + k)"] by auto
  from wait_deleted_first[OF least k, of self] assms show ?thesis by auto
qed

lemma prepared_simps:
  "resource_group (prepared kwargs cm location) = kwargs ''resource_group''"
  "vault_name (prepared kwargs cm location) = kwargs ''vault_name''"
  "parameters (prepared kwargs cm location) = dispatch_payload kwargs location"
  "results (prepared kwargs cm location) = fmupd ''changed'' (PBool False) fmempty"
  "state (prepared kwargs cm location) = kwargs ''state''"
  "to_do (prepared kwargs cm location) = NoAction"
  "check_mode (prepared kwargs cm location) = cm"
  by (simp_all add: prepared_def normalised_def)

lemma prepare_init:
  "prepare r kwargs (init cm) world0 =
     (case rg_lookup r (kwargs ''resource_group'') of
        Inl msg \<Rightarrow> (Inl (Fail msg), \<lparr> trace = [ResourceGroupGet (kwargs ''resource_group'')], gets = 0 \<rparr>)
      | Inr location \<Rightarrow>
          (Inr (prepared kwargs cm location),
           \<lparr> trace = [ResourceGroupGet (kwargs ''resource_group'')], gets = 0 \<rparr>))"
  by (simp add: prepare_def normalise_init normalised_def emit_def world0_def prepared_def
      dispatch_payload_def payload_location split: sum.splits)

lemma choose_action_simps:
  "resource_group (choose_action old self) = resource_group self"
  "vault_name (choose_action old self) = vault_name self"
  "parameters (choose_action old self) = parameters self"
  "results (choose_action old self) = results self"
  "state (choose_action old self) = state self"
  "check_mode (choose_action old self) = check_mode self"
  by (simp_all add: choose_action_def)

lemma decide_eq:
  "decide r self w =
     (case fetched r (gets w) of
        Inl e \<Rightarrow> Inl e
      | Inr old \<Rightarrow> Inr (old, choose_action old self),
      \<lparr> trace = trace w @ [VaultGet (resource_group self) (vault_name self)], gets = Suc (gets w) \<rparr>)"
  by (simp add: decide_def get_keyvault_eq split: sum.splits)

lemma exec_module_init:
  "exec_module r kwargs (init cm) world0 =
     (case rg_lookup r (kwargs ''resource_group'') of
        Inl msg \<Rightarrow>
          Some (Inl (Fail msg), \<lparr> trace = [ResourceGroupGet (kwargs ''resource_group'')], gets = 0 \<rparr>)
      | Inr location \<Rightarrow>
          (case fetched r 0 of
             Inl e \<Rightarrow>
               Some (Inl e,
                     \<lparr> trace = [ResourceGroupGet (kwargs ''resource_group''),
                                VaultGet (kwargs ''resource_group'') (kwargs ''vault_name'')],
                       gets = Suc 0 \<rparr>)
           | Inr old \<Rightarrow>
               act r old (choose_action old (prepared kwargs cm location))
                 \<lparr> trace = [ResourceGroupGet (kwargs ''resource_group''),
                            VaultGet (kwargs ''resource_group'') (kwargs ''vault_name'')],
                   gets = Suc 0 \<rparr>))"
  by (simp add: exec_module_def prepare_init decide_eq prepared_simps split: sum.splits)

lemma selected_action_init:
  "selected_action r kwargs (init cm) world0 =
     (case rg_lookup r (kwargs ''resource_group'') of
        Inl msg \<Rightarrow> None
      | Inr location \<Rightarrow>
          (case fetched r 0 of
             Inl e \<Rightarrow> None
           | Inr old \<Rightarrow> Some (to_do (choose_action old (prepared kwargs cm location)))))"
  by (simp add: selected_action_def prepare_init decide_eq split: sum.splits)

lemma to_do_choose_action:
  "to_do self = NoAction \<Longrightarrow>
   to_do (choose_action old self) =
     (if \<not> truthy old then (if state self = PStr ''absent'' then NoAction else Create)
      else if state self = PStr ''absent'' then Delete
      else if state self = PStr ''present'' then Update else NoAction)"
  by (simp add: choose_action_def)

lemma create_update_keyvault_raised:
  "raised r (parameters self) = Some (CloudError exc) \<Longrightarrow>
   create_update_keyvault r self w =
     (Inl (Fail (''Error creating the Key Vault instance: '' @ exc)),
      \<lparr> trace = trace w @ [VaultCreateOrUpdate (resource_group self) (vault_name self) (parameters self)],
        gets = gets w \<rparr>)"
  by (auto simp: create_update_keyvault_def raised_def emit_def
      split: cou_outcome.splits sum.splits exception.splits)

lemma create_update_keyvault_propagated:
  "raised r (parameters self) = Some (OtherError x) \<Longrightarrow>
   create_update_keyvault r self w =
     (Inl (Propagated x),
      \<lparr> trace = trace w @ [VaultCreateOrUpdate (resource_group self) (vault_name self) (parameters self)],
        gets = gets w \<rparr>)"
  by (auto simp: create_update_keyvault_def raised_def emit_def
      split: cou_outcome.splits sum.splits exception.splits)

lemma create_update_keyvault_created:
  "created r (parameters self) = Some response \<Longrightarrow>
   create_update_keyvault r self w =
     (Inr response,
      \<lparr> trace = trace w @ [VaultCreateOrUpdate (resource_group self) (vault_name self) (parameters self)],
        gets = gets w \<rparr>)"
  by (auto simp: create_update_keyvault_def created_def emit_def split: cou_outcome.splits sum.splits)

lemma raised_or_created: "(\<exists>exc. raised r p = Some exc) \<or> (\<exists>response. created r p = Some response)"
  by (auto simp: created_def raised_def split: cou_outcome.splits sum.splits)

lemma delete_keyvault_eq:
  "delete_keyvault r self w =
     ((case vaults_delete r of
         Inl (CloudError e) \<Rightarrow> Inl (Fail (''Error deleting the Key Vault instance: '' @ e))
       | Inl (OtherError x) \<Rightarrow> Inl (Propagated x)
       | Inr u \<Rightarrow> Inr True),
      \<lparr> trace = trace w @ [VaultDelete (resource_group self) (vault_name self)], gets = gets w \<rparr>)"
  by (simp add: delete_keyvault_def emit_def split: sum.splits exception.splits)

lemmas chosen_simps = prepared_simps choose_action_simps to_do_choose_action

lemma act_delete:
  assumes "to_do self = Delete" "\<not> check_mode self" "vaults_delete r = Inr u"
  shows "act r old self w =
     (case wait_deleted r self
             \<lparr> trace = trace w @ [VaultDelete (resource_group self) (vault_name self)], gets = gets w \<rparr> of
        None \<Rightarrow> None
      | Some (x, w'') \<Rightarrow>
          Some (case x of Inl e \<Rightarrow> Inl e
                | Inr done \<Rightarrow> Inr (fmupd ''changed'' (PBool True) (results self)), w''))"
  using assms
  by (simp add: act_def delete_keyvault_eq finish_def split: option.splits sum.splits prod.splits)

lemma act_check_mode:
  "check_mode self \<Longrightarrow>
   act r old self w =
     Some (if to_do self = NoAction
           then finish old (fmupd ''changed'' (PBool False) (results self))
           else Inr (fmupd ''changed'' (PBool True) (results self)), w)"
  by (cases "to_do self") (simp_all add: act_def)

lemma snd_create_update_keyvault:
  "snd (create_update_keyvault r self w) =
     \<lparr> trace = trace w @ [VaultCreateOrUpdate (resource_group self) (vault_name self) (parameters self)],
       gets = gets w \<rparr>"
proof -
  from raised_or_created[of r "parameters self"] consider
    exc where "raised r (parameters self) = Some (CloudError exc)"
    | x where "raised r (parameters self) = Some (OtherError x)"
    | response where "created r (parameters self) = Some response"
    by (metis exception.exhaust)
  then show ?thesis
    by cases (simp_all add: create_update_keyvault_raised create_update_keyvault_propagated
        create_update_keyvault_created)
qed

lemma act_trace:
  assumes "act r old self w = Some (out, w')"
  shows "trace w' = trace w
       \<or> trace w' = trace w @ [VaultCreateOrUpdate (resource_group self) (vault_name self) (parameters self)]
       \<or> trace w' = trace w @ [VaultDelete (resource_group self) (vault_name self)]
       \<or> (\<exists>k. trace w' = trace w @ [VaultDelete (resource_group self) (vault_name self)]
                   @ polls (resource_group self) (vault_name self) k)"
proof (cases "to_do self = Create \<or> to_do self = Update")
  case True
  show ?thesis
  proof (cases "check_mode self")
    case True
    with \<open>to_do self = Create \<or> to_do self = Update\<close> assms show ?thesis
      by (auto simp: act_def)
  next
    case False
    obtain x w1 where cu: "create_update_keyvault r self w = (x, w1)"
      by (cases "create_update_keyvault r self w")
    with snd_create_update_keyvault[of r self w]
    have w1: "trace w1 = trace w @ [VaultCreateOrUpdate (resource_group self) (vault_name self) (parameters self)]"
      by simp
    from assms True False cu have "w' = w1"
      by (cases x) (auto simp: act_def)
    with w1 show ?thesis by simp
  qed
next
  case False
  note not_cu = this
  show ?thesis
  proof (cases "to_do self = Delete")
    case False
    with not_cu assms show ?thesis by (auto simp: act_def)
  next
    case True
    show ?thesis
    proof (cases "check_mode self")
      case True
      with \<open>to_do self = Delete\<close> assms show ?thesis by (auto simp: act_def)
    next
      case False
      show ?thesis
      proof (cases "vaults_delete r")
        case (Inl exc)
        with \<open>to_do self = Delete\<close> False assms show ?thesis
          by (cases exc) (auto simp: act_def delete_keyvault_eq)
      next
        case (Inr u)
        from assms obtain x w'' where
          wd: "wait_deleted r self
                 \<lparr> trace = trace w @ [VaultDelete (resource_group self) (vault_name self)], gets = gets w \<rparr>
               = Some (x, w'')" and "w' = w''"
          by (auto simp: act_delete[OF \<open>to_do self = Delete\<close> False Inr] split: option.splits)
        from wait_deleted_Some[OF wd] \<open>w' = w''\<close> show ?thesis by auto
      qed
    qed
  qed
qed

lemma set_polls: "set (polls rg name k) \<subseteq> {VaultGet rg name, Sleep 20}"
  by (induction k) (auto simp: polls_def)

lemma exec_module_trace:
  assumes "exec_module r kwargs (init cm) world0 = Some (out, w)"
    and "rg_lookup r (kwargs ''resource_group'') = Inr location"
  shows "\<exists>rest. trace w = [ResourceGroupGet (kwargs ''resource_group''),
                           VaultGet (kwargs ''resource_group'') (kwargs ''vault_name'')] @ rest
           \<and> set rest \<subseteq> {VaultCreateOrUpdate (kwargs ''resource_group'') (kwargs ''vault_name'')
                              (dispatch_payload kwargs location),
                            VaultDelete (kwargs ''resource_group'') (kwargs ''vault_name''),
                            VaultGet (kwargs ''resource_group'') (kwargs ''vault_name''),
                            Sleep 20}"
proof -
  let ?rg = "kwargs ''resource_group''"
  let ?name = "kwargs ''vault_name''"
  let ?w = "\<lparr> trace = [ResourceGroupGet ?rg, VaultGet ?rg ?name], gets = Suc 0 \<rparr>"
  let ?cou = "VaultCreateOrUpdate ?rg ?name (dispatch_payload kwargs location)"
  let ?allowed = "{?cou, VaultDelete ?rg ?name, VaultGet ?rg ?name, Sleep 20}"
  have "trace w = trace ?w
      \<or> trace w = trace ?w @ [?cou]
      \<or> trace w = trace ?w @ [VaultDelete ?rg ?name]
      \<or> (\<exists>k. trace w = trace ?w @ [VaultDelete ?rg ?name] @ polls ?rg ?name k)"
  proof (cases "fetched r 0")
    case (Inl e)
    with assms have "w = ?w" by (simp add: exec_module_init)
    then show ?thesis by simp
  next
    case (Inr old)
    let ?self = "choose_action old (prepared kwargs cm location)"
    have attrs: "resource_group ?self = ?rg" "vault_name ?self = ?name"
        "parameters ?self = dispatch_payload kwargs location"
      by (simp_all add: prepared_simps choose_action_simps)
    from assms Inr have "act r old ?self ?w = Some (out, w)"
      by (simp add: exec_module_init)
    from act_trace[OF this] show ?thesis
      unfolding attrs .
  qed
  then consider "trace w = [ResourceGroupGet ?rg, VaultGet ?rg ?name] @ []"
    | "trace w = [ResourceGroupGet ?rg, VaultGet ?rg ?name] @ [?cou]"
    | "trace w = [ResourceGroupGet ?rg, VaultGet ?rg ?name] @ [VaultDelete ?rg ?name]"
    | k where "trace w = [ResourceGroupGet ?rg, VaultGet ?rg ?name]
                           @ (VaultDelete ?rg ?name # polls ?rg ?name k)"
    by fastforce
  then show ?thesis
  proof cases
    case 1
    have "set [] \<subseteq> ?allowed" by simp
    with 1 show ?thesis by blast
  next
    case 2
    have "set [?cou] \<subseteq> ?allowed" by simp
    with 2 show ?thesis by blast
  next
    case 3
    have "set [VaultDelete ?rg ?name] \<subseteq> ?allowed" by simp
    with 3 show ?thesis by blast
  next
    case 4
    have "set (VaultDelete ?rg ?name # polls ?rg ?name k) \<subseteq> ?allowed"
      using set_polls[of ?rg ?name k] by auto
    with 4 show ?thesis by blast
  qed
qed

lemma normalise_parameters:
  "\<exists>self'. normalise kwargs (init cm) = Inr self' \<and> parameters self' = payload kwargs"
  by (simp add: normalise_init normalised_def)

lemma rename_key_same_level:
  assumes "fmlookup d old_name = Some v" and "v \<noteq> PNone" and "old_name \<noteq> new_name"
  shows "fmlookup (rename_key d old_name new_name) new_name = Some v"
    and "fmlookup (rename_key d old_name new_name) old_name = None"
  using assms by (simp_all add: rename_key_def dict_get_def Let_def)

lemma exec_module_create_update:
  assumes "rg_lookup r (kwargs ''resource_group'') = Inr location"
    and "kwargs ''state'' = PStr ''present''"
    and "vaults_get r 0 = Inl (CloudError e)"
    and "created r (dispatch_payload kwargs location) = Some new"
    and "fmlookup new ''id'' = Some i"
  shows "\<exists>res. exec_module r kwargs (init False) world0 =
            Some (Inr res,
                  \<lparr> trace = [ResourceGroupGet (kwargs ''resource_group''),
                             VaultGet (kwargs ''resource_group'') (kwargs ''vault_name''),
                             VaultCreateOrUpdate (kwargs ''resource_group'') (kwargs ''vault_name'')
                               (dispatch_payload kwargs location)],
                    gets = 1 \<rparr>)"
proof -
  have nonempty: "new \<noteq> fmempty"
    using assms(5) by auto
  show ?thesis
    using assms nonempty
    by (auto simp: exec_module_init act_def chosen_simps create_update_keyvault_created finish_def
        fetched_cloud_error)
qed

lemma exec_module_get_propagates:
  assumes "rg_lookup r (kwargs ''resource_group'') = Inr location"
    and "vaults_get r 0 = Inl (OtherError x)"
  shows "exec_module r kwargs (init cm) world0 =
           Some (Inl (Propagated x),
                 \<lparr> trace = [ResourceGroupGet (kwargs ''resource_group''),
                            VaultGet (kwargs ''resource_group'') (kwargs ''vault_name'')],
                   gets = 1 \<rparr>)"
  using assms by (simp add: exec_module_init fetched_other_error)

lemma exec_module_create_propagates:
  assumes "rg_lookup r (kwargs ''resource_group'') = Inr location"
    and "kwargs ''state'' = PStr ''present''"
    and "fetched r 0 = Inr old"
    and "raised r (dispatch_payload kwargs location) = Some (OtherError x)"
  shows "exec_module r kwargs (init False) world0 =
           Some (Inl (Propagated x),
                 \<lparr> trace = [ResourceGroupGet (kwargs ''resource_group''),
                            VaultGet (kwargs ''resource_group'') (kwargs ''vault_name''),
                            VaultCreateOrUpdate (kwargs ''resource_group'') (kwargs ''vault_name'')
                              (dispatch_payload kwargs location)],
                   gets = 1 \<rparr>)"
  using assms
  by (auto simp: exec_module_init act_def chosen_simps create_update_keyvault_propagated)

lemma exec_module_check_mode_update:
  assumes "rg_lookup r (kwargs ''resource_group'') = Inr location"
    and "kwargs ''state'' = PStr ''present''"
    and "vaults_get r 0 = Inr old" and "old \<noteq> fmempty"
  shows "exec_module r kwargs (init True) world0 =
           Some (Inr (fmupd ''changed'' (PBool True) fmempty),
                 \<lparr> trace = [ResourceGroupGet (kwargs ''resource_group''),
                            VaultGet (kwargs ''resource_group'') (kwargs ''vault_name'')],
                   gets = 1 \<rparr>)"
  using assms
  by (simp add: exec_module_init fetched_vault act_check_mode chosen_simps)

lemma vaults_differ: "vault_kv1 \<noteq> vault_kv1_new"
proof
  assume "vault_kv1 = vault_kv1_new"
  then have "fmlookup vault_kv1 ''location'' = fmlookup vault_kv1_new ''location''" by simp
  then show False by (simp add: vault_kv1_def vault_kv1_new_def)
qed

lemma example_options:
  "kwargs_absent ''state'' = PStr ''absent''" "kwargs_present ''state'' = PStr ''present''"
  "kwargs_absent ''resource_group'' = PStr ''rg1''" "kwargs_present ''resource_group'' = PStr ''rg1''"
  "kwargs_absent ''vault_name'' = PStr ''kv1''" "kwargs_present ''vault_name'' = PStr ''kv1''"
  "kwargs_present ''location'' = PNone" "kwargs_located ''location'' = PStr ''eastus''"
  "kwargs_located ''state'' = PStr ''present''" "kwargs_located ''resource_group'' = PStr ''rg1''"
  "kwargs_located ''vault_name'' = PStr ''kv1''"
  by (simp_all add: kwargs_absent_def kwargs_present_def kwargs_located_def kwargs_of_def)

lemma example_vaults:
  "vault_kv1 \<noteq> fmempty" "fmlookup vault_kv1 ''id'' = Some (PStr ''/vaults/kv1'')"
  "fmlookup vault_kv1_new ''id'' = Some (PStr ''/vaults/kv1'')"
  by (simp_all add: vault_kv1_def vault_kv1_new_def)

lemma example_lookups:
  "rg_lookup remote_missing rg = Inr (PStr ''westus'')"
  "rg_lookup remote_found rg = Inr (PStr ''westus'')"
  "rg_lookup remote_stuck rg = Inr (PStr ''westus'')"
  "rg_lookup remote_failing rg = Inr (PStr ''westus'')"
  "rg_lookup remote_no_group rg = Inl ''Resource group rg1 not found''"
  "rg_lookup remote_unreachable rg = Inr (PStr ''westus'')"
  "rg_lookup remote_invalid rg = Inr (PStr ''westus'')"
  by (simp_all add: remote_missing_def remote_found_def remote_stuck_def remote_failing_def
      remote_no_group_def remote_unreachable_def remote_invalid_def)

lemma example_fetches:
  "vaults_get remote_missing n = Inl (CloudError ''NotFound'')"
  "vaults_get remote_found 0 = Inr vault_kv1"
  "vaults_get remote_stuck n = Inr vault_kv1"
  "vaults_get remote_failing n = Inr vault_kv1"
  "vaults_get remote_unreachable n = Inl (OtherError ''ClientRequestError'')"
  "vaults_get remote_invalid n = Inl (CloudError ''NotFound'')"
  by (simp_all add: remote_missing_def remote_found_def remote_stuck_def remote_failing_def
      remote_unreachable_def remote_invalid_def)

section \<open>The properties of the specification\<close>

text \<open>
  \<^bold>\<open>C1.\<close> The action is chosen from what the first fetch observed and from the desired
  state: nothing is done when the vault is absent and shall be absent, it is created when it
  is absent and shall be present, deleted when it is present and shall be absent, updated when
  it is present and shall be present. The vault is absent when \<^verbatim>\<open>vaults.get\<close> raised, and
  present when it returned a vault (whose dictionary is never empty: it holds the identifier).
  The choice is made once the resource group has been found.
\<close>

theorem action_selection:
  assumes "rg_lookup r (kwargs ''resource_group'') = Inr location"
  shows "(vaults_get r 0 = Inl (CloudError e) \<and> kwargs ''state'' = PStr ''absent''
            \<longrightarrow> selected_action r kwargs (init cm) world0 = Some NoAction)
       \<and> (vaults_get r 0 = Inl (CloudError e) \<and> kwargs ''state'' = PStr ''present''
            \<longrightarrow> selected_action r kwargs (init cm) world0 = Some Create)
       \<and> (vaults_get r 0 = Inr vault \<and> vault \<noteq> fmempty \<and> kwargs ''state'' = PStr ''absent''
            \<longrightarrow> selected_action r kwargs (init cm) world0 = Some Delete)
       \<and> (vaults_get r 0 = Inr vault \<and> vault \<noteq> fmempty \<and> kwargs ''state'' = PStr ''present''
            \<longrightarrow> selected_action r kwargs (init cm) world0 = Some Update)"
  using assms
  by (auto simp: selected_action_init to_do_choose_action prepared_simps choose_action_simps
      fetched_cloud_error fetched_vault)

theorem action_selection_witness:
  "selected_action remote_missing kwargs_absent (init False) world0 = Some NoAction
   \<and> selected_action remote_missing kwargs_present (init False) world0 = Some Create
   \<and> selected_action remote_found kwargs_absent (init False) world0 = Some Delete
   \<and> selected_action remote_found kwargs_present (init False) world0 = Some Update"
proof -
  have rg: "rg_lookup remote_missing (kwargs_absent ''resource_group'') = Inr (PStr ''westus'')"
    "rg_lookup remote_missing (kwargs_present ''resource_group'') = Inr (PStr ''westus'')"
    "rg_lookup remote_found (kwargs_absent ''resource_group'') = Inr (PStr ''westus'')"
    "rg_lookup remote_found (kwargs_present ''resource_group'') = Inr (PStr ''westus'')"
    by (simp_all add: remote_missing_def remote_found_def)
  have gets: "vaults_get remote_missing 0 = Inl (CloudError ''NotFound'')" "vaults_get remote_found 0 = Inr vault_kv1"
    by (simp_all add: remote_missing_def remote_found_def)
  have st: "kwargs_absent ''state'' = PStr ''absent''" "kwargs_present ''state'' = PStr ''present''"
    by (simp_all add: kwargs_absent_def kwargs_present_def kwargs_of_def)
  have ne: "vault_kv1 \<noteq> fmempty"
    by (simp add: vault_kv1_def)
  from action_selection[where r = remote_missing and kwargs = kwargs_absent and location = "PStr ''westus''"
      and e = "''NotFound''" and vault = vault_kv1 and cm = False]
    action_selection[where r = remote_missing and kwargs = kwargs_present and location = "PStr ''westus''"
      and e = "''NotFound''" and vault = vault_kv1 and cm = False]
    action_selection[where r = remote_found and kwargs = kwargs_absent and location = "PStr ''westus''"
      and e = "''NotFound''" and vault = vault_kv1 and cm = False]
    action_selection[where r = remote_found and kwargs = kwargs_present and location = "PStr ''westus''"
      and e = "''NotFound''" and vault = vault_kv1 and cm = False]
  show ?thesis
    by (simp only: rg gets st ne simp_thms not_False_eq_True)
qed

text \<open>
  \<^bold>\<open>C2.\<close> The comments of \<^verbatim>\<open>adjust_parameters\<close> ask for the four permission fields of an
  access policy to go under \<^verbatim>\<open>permissions\<close>. The code does not do it: for one policy with
  the field \<^verbatim>\<open>keys\<close>, the payload holds the policy as it was supplied, \<^verbatim>\<open>keys\<close> at its top
  level and no \<^verbatim>\<open>permissions\<close>.
\<close>

theorem access_policy_left_flat:
  "\<exists>self'. normalise kwargs_policy (init False) = Inr self'
     \<and> fmlookup (properties_of (parameters self')) ''access_policies'' = Some (PList [PDict policy_entry])
     \<and> fmlookup policy_entry ''keys'' = Some (PList [PStr ''get''])
     \<and> fmlookup policy_entry ''permissions'' = None"
proof -
  from normalise_parameters[of kwargs_policy False] obtain self' where
    n: "normalise kwargs_policy (init False) = Inr self'" and p: "parameters self' = payload kwargs_policy"
    by blast
  have kw: "kwargs_policy ''access_policies'' = PList [PDict policy_entry]"
    by (simp add: kwargs_policy_def kwargs_of_def)
  have "fmlookup (properties_of (payload kwargs_policy)) ''access_policies'' = Some (PList [PDict policy_entry])"
    by (simp add: payload_property property_keys_def kw)
  moreover have "fmlookup policy_entry ''keys'' = Some (PList [PStr ''get''])"
    "fmlookup policy_entry ''permissions'' = None"
    by (simp_all add: policy_entry_def)
  ultimately show ?thesis
    using n p by (intro exI[of _ self']) simp
qed

text \<open>
  \<^bold>\<open>C3.\<close> Outside check mode, when the vault shall be present, \<^verbatim>\<open>create_or_update\<close> is
  called exactly once, with the payload, whatever the vault found. When the call yields a vault
  (with its identifier), \<^verbatim>\<open>changed\<close> is the inequality of the vault found before and the
  vault returned; it is true when none was found. This does not hold of every invocation:
  in check mode (lines 281 to 283) a vault that is found and shall be present gives
  \<^verbatim>\<open>changed\<close> true and no call of \<^verbatim>\<open>create_or_update\<close>, as the last theorem shows on a
  vault that the call would have returned unchanged.
\<close>

theorem create_or_update_changed:
  assumes "rg_lookup r (kwargs ''resource_group'') = Inr location"
    and "kwargs ''state'' = PStr ''present''"
    and "created r (dispatch_payload kwargs location) = Some new"
    and "fmlookup new ''id'' = Some i"
  shows "(vaults_get r 0 = Inr old \<and> old \<noteq> fmempty \<longrightarrow>
            exec_module r kwargs (init False) world0 =
              Some (Inr (fmupd ''id'' i (fmupd ''changed'' (PBool (old \<noteq> new)) fmempty)),
                    \<lparr> trace = [ResourceGroupGet (kwargs ''resource_group''),
                               VaultGet (kwargs ''resource_group'') (kwargs ''vault_name''),
                               VaultCreateOrUpdate (kwargs ''resource_group'') (kwargs ''vault_name'')
                                 (dispatch_payload kwargs location)],
                      gets = 1 \<rparr>))
       \<and> (vaults_get r 0 = Inl (CloudError e) \<longrightarrow>
            exec_module r kwargs (init False) world0 =
              Some (Inr (fmupd ''id'' i (fmupd ''changed'' (PBool True) fmempty)),
                    \<lparr> trace = [ResourceGroupGet (kwargs ''resource_group''),
                               VaultGet (kwargs ''resource_group'') (kwargs ''vault_name''),
                               VaultCreateOrUpdate (kwargs ''resource_group'') (kwargs ''vault_name'')
                                 (dispatch_payload kwargs location)],
                      gets = 1 \<rparr>))"
proof -
  have nonempty: "new \<noteq> fmempty"
    using assms(4) by auto
  show ?thesis
    using assms nonempty
    by (auto simp: exec_module_init act_def chosen_simps create_update_keyvault_created finish_def
        fetched_cloud_error fetched_vault)
qed

theorem create_or_update_changed_witness:
  "exec_module remote_found kwargs_present (init False) world0 =
     Some (Inr (fmupd ''id'' (PStr ''/vaults/kv1'') (fmupd ''changed'' (PBool True) fmempty)),
           \<lparr> trace = [ResourceGroupGet (PStr ''rg1''), VaultGet (PStr ''rg1'') (PStr ''kv1''),
                      VaultCreateOrUpdate (PStr ''rg1'') (PStr ''kv1'')
                        (dispatch_payload kwargs_present (PStr ''westus''))],
             gets = 1 \<rparr>)
   \<and> exec_module remote_stuck kwargs_present (init False) world0 =
     Some (Inr (fmupd ''id'' (PStr ''/vaults/kv1'') (fmupd ''changed'' (PBool False) fmempty)),
           \<lparr> trace = [ResourceGroupGet (PStr ''rg1''), VaultGet (PStr ''rg1'') (PStr ''kv1''),
                      VaultCreateOrUpdate (PStr ''rg1'') (PStr ''kv1'')
                        (dispatch_payload kwargs_present (PStr ''westus''))],
             gets = 1 \<rparr>)
   \<and> exec_module remote_missing kwargs_present (init False) world0 =
     Some (Inr (fmupd ''id'' (PStr ''/vaults/kv1'') (fmupd ''changed'' (PBool True) fmempty)),
           \<lparr> trace = [ResourceGroupGet (PStr ''rg1''), VaultGet (PStr ''rg1'') (PStr ''kv1''),
                      VaultCreateOrUpdate (PStr ''rg1'') (PStr ''kv1'')
                        (dispatch_payload kwargs_present (PStr ''westus''))],
             gets = 1 \<rparr>)"
proof -
  have rg: "rg_lookup remote_found (kwargs_present ''resource_group'') = Inr (PStr ''westus'')"
    "rg_lookup remote_missing (kwargs_present ''resource_group'') = Inr (PStr ''westus'')"
    "rg_lookup remote_stuck (kwargs_present ''resource_group'') = Inr (PStr ''westus'')"
    by (simp_all add: remote_found_def remote_missing_def remote_stuck_def)
  have cr: "created remote_found (dispatch_payload kwargs_present (PStr ''westus'')) = Some vault_kv1_new"
    "created remote_missing (dispatch_payload kwargs_present (PStr ''westus'')) = Some vault_kv1"
    "created remote_stuck (dispatch_payload kwargs_present (PStr ''westus'')) = Some vault_kv1"
    by (simp_all add: created_def remote_found_def remote_missing_def remote_stuck_def)
  have gets: "vaults_get remote_found 0 = Inr vault_kv1" "vaults_get remote_missing 0 = Inl (CloudError ''NotFound'')"
    "vaults_get remote_stuck 0 = Inr vault_kv1"
    by (simp_all add: remote_found_def remote_missing_def remote_stuck_def)
  from create_or_update_changed[OF rg(1) example_options(2) cr(1) example_vaults(3),
      where old = vault_kv1 and e = "''NotFound''"]
    create_or_update_changed[OF rg(3) example_options(2) cr(3) example_vaults(2),
      where old = vault_kv1 and e = "''NotFound''"]
    create_or_update_changed[OF rg(2) example_options(2) cr(2) example_vaults(2),
      where old = vault_kv1 and e = "''NotFound''"]
  show ?thesis
    by (simp only: gets example_vaults example_options vaults_differ simp_thms not_False_eq_True)
qed

theorem create_or_update_dry_run_counterexample:
  "vaults_get remote_stuck 0 = Inr vault_kv1 \<and> vault_kv1 \<noteq> fmempty
   \<and> kwargs_present ''state'' = PStr ''present''
   \<and> exec_module remote_stuck kwargs_present (init True) world0 =
       Some (Inr (fmupd ''changed'' (PBool True) fmempty),
             \<lparr> trace = [ResourceGroupGet (PStr ''rg1''), VaultGet (PStr ''rg1'') (PStr ''kv1'')],
               gets = 1 \<rparr>)"
  using exec_module_check_mode_update[where r = remote_stuck and kwargs = kwargs_present
      and location = "PStr ''westus''" and old = vault_kv1]
  by (simp add: example_lookups example_options example_fetches example_vaults)

text \<open>
  \<^bold>\<open>C4.\<close> Outside check mode, when a vault is found and shall be absent, and the deletion
  succeeds: \<^verbatim>\<open>delete\<close> is called once, then the vault is fetched again, with a sleep of 20
  seconds after every fetch that still finds it, until a fetch does not find it. The invocation
  returns exactly when some later fetch finds no vault, after any number \<open>k\<close> of fetches that
  found one, and makes no other call. A fetch that reports the vault absent ends the loop and
  the invocation succeeds; a fetch that raises an exception of another class than
  \<^verbatim>\<open>CloudError\<close> ends the invocation with that exception.
\<close>

theorem delete_polls_until_absent:
  assumes "rg_lookup r (kwargs ''resource_group'') = Inr location"
    and "kwargs ''state'' = PStr ''absent''"
    and "vaults_get r 0 = Inr vault" and "vault \<noteq> fmempty"
    and "vaults_delete r = Inr u"
  shows "((exec_module r kwargs (init False) world0 \<noteq> None) = (\<exists>k. \<not> finds r (Suc k)))
       \<and> ((\<forall>j<k. finds r (Suc j)) \<and> fetched r (Suc k) = Inr response \<and> \<not> truthy response \<longrightarrow>
            exec_module r kwargs (init False) world0 =
              Some (Inr (fmupd ''changed'' (PBool True) fmempty),
                    \<lparr> trace = [ResourceGroupGet (kwargs ''resource_group''),
                               VaultGet (kwargs ''resource_group'') (kwargs ''vault_name''),
                               VaultDelete (kwargs ''resource_group'') (kwargs ''vault_name'')]
                              @ polls (kwargs ''resource_group'') (kwargs ''vault_name'') k,
                      gets = k + 2 \<rparr>))
       \<and> ((\<forall>j<k. finds r (Suc j)) \<and> fetched r (Suc k) = Inl e \<longrightarrow>
            exec_module r kwargs (init False) world0 =
              Some (Inl e,
                    \<lparr> trace = [ResourceGroupGet (kwargs ''resource_group''),
                               VaultGet (kwargs ''resource_group'') (kwargs ''vault_name''),
                               VaultDelete (kwargs ''resource_group'') (kwargs ''vault_name'')]
                              @ polls (kwargs ''resource_group'') (kwargs ''vault_name'') k,
                      gets = k + 2 \<rparr>))"
proof -
  let ?self = "choose_action (PDict vault) (prepared kwargs False location)"
  let ?w = "\<lparr> trace = [ResourceGroupGet (kwargs ''resource_group''),
                       VaultGet (kwargs ''resource_group'') (kwargs ''vault_name''),
                       VaultDelete (kwargs ''resource_group'') (kwargs ''vault_name'')],
              gets = Suc 0 \<rparr>"
  let ?wk = "\<lparr> trace = [ResourceGroupGet (kwargs ''resource_group''),
                       VaultGet (kwargs ''resource_group'') (kwargs ''vault_name''),
                       VaultDelete (kwargs ''resource_group'') (kwargs ''vault_name'')]
                      @ polls (kwargs ''resource_group'') (kwargs ''vault_name'') k,
               gets = k + 2 \<rparr>"
  have todo: "to_do ?self = Delete" "\<not> check_mode ?self"
    using assms by (simp_all add: chosen_simps)
  have exec: "exec_module r kwargs (init False) world0 =
     (case wait_deleted r ?self ?w of
        None \<Rightarrow> None
      | Some (x, w'') \<Rightarrow>
          Some (case x of Inl e \<Rightarrow> Inl e
                | Inr done \<Rightarrow> Inr (fmupd ''changed'' (PBool True) fmempty), w''))"
    using assms(1)
    by (simp add: exec_module_init fetched_vault[OF assms(3)] act_delete[OF todo assms(5)]
        chosen_simps split: option.splits sum.splits)
  have "(exec_module r kwargs (init False) world0 \<noteq> None) = (wait_deleted r ?self ?w \<noteq> None)"
    by (simp add: exec split: option.splits)
  also have "\<dots> = (\<exists>k. \<not> finds r (gets ?w + k))"
    by (rule wait_deleted_iff)
  finally have terminates:
    "(exec_module r kwargs (init False) world0 \<noteq> None) = (\<exists>k. \<not> finds r (Suc k))"
    by simp
  have loop: "wait_deleted r ?self ?w =
       Some (case fetched r (Suc k) of Inl e \<Rightarrow> Inl e | Inr response \<Rightarrow> Inr (), ?wk)"
    if "\<forall>j<k. finds r (Suc j)" and "\<not> finds r (Suc k)"
  proof -
    have "wait_deleted r ?self ?w =
       Some (case fetched r (gets ?w + k) of Inl e \<Rightarrow> Inl e | Inr response \<Rightarrow> Inr (),
             \<lparr> trace = trace ?w @ polls (resource_group ?self) (vault_name ?self) k,
               gets = gets ?w + k + 1 \<rparr>)"
      by (rule wait_deleted_first) (use that in simp_all)
    then show ?thesis by (simp add: chosen_simps)
  qed
  have absent: "exec_module r kwargs (init False) world0
                  = Some (Inr (fmupd ''changed'' (PBool True) fmempty), ?wk)"
    if "\<forall>j<k. finds r (Suc j)" and "fetched r (Suc k) = Inr response" and "\<not> truthy response"
  proof -
    from that have "\<not> finds r (Suc k)" by (simp add: finds_def)
    from loop[OF that(1) this] that(2) show ?thesis by (simp add: exec)
  qed
  have aborted: "exec_module r kwargs (init False) world0 = Some (Inl e, ?wk)"
    if "\<forall>j<k. finds r (Suc j)" and "fetched r (Suc k) = Inl e"
  proof -
    from that have "\<not> finds r (Suc k)" by (simp add: finds_def)
    from loop[OF that(1) this] that(2) show ?thesis by (simp add: exec)
  qed
  from terminates absent aborted show ?thesis by blast
qed

theorem delete_polls_until_absent_witness:
  "exec_module remote_found kwargs_absent (init False) world0 =
     Some (Inr (fmupd ''changed'' (PBool True) fmempty),
           \<lparr> trace = [ResourceGroupGet (PStr ''rg1''), VaultGet (PStr ''rg1'') (PStr ''kv1''),
                      VaultDelete (PStr ''rg1'') (PStr ''kv1''),
                      VaultGet (PStr ''rg1'') (PStr ''kv1''), Sleep 20,
                      VaultGet (PStr ''rg1'') (PStr ''kv1'')],
             gets = 3 \<rparr>)
   \<and> exec_module remote_stuck kwargs_absent (init False) world0 = None"
proof -
  have rg: "rg_lookup remote_found (kwargs_absent ''resource_group'') = Inr (PStr ''westus'')"
    "rg_lookup remote_stuck (kwargs_absent ''resource_group'') = Inr (PStr ''westus'')"
    by (simp_all add: example_lookups)
  have del: "vaults_delete remote_found = Inr ()" "vaults_delete remote_stuck = Inr ()"
    by (simp_all add: remote_found_def remote_stuck_def)
  have found: "\<forall>j<1. finds remote_found (Suc j)"
    "fetched remote_found (Suc 1) = Inr (PBool False)" "\<not> truthy (PBool False)"
    by (simp_all add: finds_def fetched_def remote_found_def example_vaults)
  have stuck: "\<not> (\<exists>k. \<not> finds remote_stuck (Suc k))"
    by (simp add: finds_def fetched_def remote_stuck_def example_vaults)
  from delete_polls_until_absent[OF rg(1) example_options(1) example_fetches(2) example_vaults(1) del(1),
      where k = 1 and response = "PBool False"] found
  have 1: "exec_module remote_found kwargs_absent (init False) world0 =
     Some (Inr (fmupd ''changed'' (PBool True) fmempty),
           \<lparr> trace = [ResourceGroupGet (kwargs_absent ''resource_group''),
                      VaultGet (kwargs_absent ''resource_group'') (kwargs_absent ''vault_name''),
                      VaultDelete (kwargs_absent ''resource_group'') (kwargs_absent ''vault_name'')]
                     @ polls (kwargs_absent ''resource_group'') (kwargs_absent ''vault_name'') 1,
             gets = 1 + 2 \<rparr>)"
    by blast
  from delete_polls_until_absent[OF rg(2) example_options(1) example_fetches(3)[of 0]
      example_vaults(1) del(2)] stuck
  have 2: "exec_module remote_stuck kwargs_absent (init False) world0 = None"
    by blast
  from 1 2 show ?thesis
    by (simp add: example_options polls_def)
qed

text \<open>
  \<^bold>\<open>C5.\<close> After normalisation, each of the nine options is under \<^verbatim>\<open>properties\<close> with its
  value when it is not \<^verbatim>\<open>None\<close>, and has no entry when it is. The container exists only if
  one of them was inserted, it holds nothing else, and the payload holds nothing beside it
  but \<^verbatim>\<open>location\<close>.
\<close>

theorem properties_container:
  "\<exists>self'. normalise kwargs (init cm) = Inr self'
     \<and> (\<forall>k \<in> set property_keys.
           fmlookup (properties_of (parameters self')) k
             = (if kwargs k = PNone then None else Some (kwargs k)))
     \<and> fmlookup (parameters self') ''properties''
         = (if \<forall>k \<in> set property_keys. kwargs k = PNone then None
            else Some (PDict (properties_of (parameters self'))))
     \<and> fmdom' (properties_of (parameters self')) \<subseteq> set property_keys
     \<and> fmdom' (parameters self') \<subseteq> {''location'', ''properties''}"
proof -
  have 1: "\<forall>k \<in> set property_keys.
           fmlookup (properties_of (payload kwargs)) k
             = (if kwargs k = PNone then None else Some (kwargs k))"
    by (simp add: payload_property)
  have 2: "fmdom' (properties_of (payload kwargs)) \<subseteq> set property_keys"
  proof
    fix k assume "k \<in> fmdom' (properties_of (payload kwargs))"
    then have "fmlookup (properties_of (payload kwargs)) k \<noteq> None"
      using fmdom'_notI by metis
    then show "k \<in> set property_keys"
      by (simp add: payload_property split: if_splits)
  qed
  have 3: "fmdom' (payload kwargs) \<subseteq> {''location'', ''properties''}"
  proof
    fix k assume "k \<in> fmdom' (payload kwargs)"
    then have "fmlookup (payload kwargs) k \<noteq> None"
      using fmdom'_notI by metis
    then have "\<not> (k \<noteq> ''location'' \<and> k \<noteq> ''properties'')"
      using payload_other[of k kwargs] by (metis (no_types))
    then show "k \<in> {''location'', ''properties''}"
      by (simp only: insert_iff empty_iff de_Morgan_conj not_not simp_thms)
  qed
  from normalise_parameters[of kwargs cm] obtain self' where
    n: "normalise kwargs (init cm) = Inr self'" and p: "parameters self' = payload kwargs"
    by blast
  show ?thesis
  proof (intro exI[of _ self'] conjI)
    show "normalise kwargs (init cm) = Inr self'" by (rule n)
    show "\<forall>k \<in> set property_keys.
           fmlookup (properties_of (parameters self')) k
             = (if kwargs k = PNone then None else Some (kwargs k))"
      unfolding p by (rule 1)
    show "fmlookup (parameters self') ''properties''
         = (if \<forall>k \<in> set property_keys. kwargs k = PNone then None
            else Some (PDict (properties_of (parameters self'))))"
      unfolding p by (rule payload_properties)
    show "fmdom' (properties_of (parameters self')) \<subseteq> set property_keys"
      unfolding p by (rule 2)
    show "fmdom' (parameters self') \<subseteq> {''location'', ''properties''}"
      unfolding p by (rule 3)
  qed
qed

theorem properties_container_witness:
  "\<exists>self'. normalise kwargs_present (init False) = Inr self'
     \<and> fmlookup (properties_of (parameters self')) ''sku'' = Some (PDict sku_standard)
     \<and> fmlookup (properties_of (parameters self')) ''tenant_id'' = None
     \<and> fmlookup (parameters self') ''properties'' = Some (PDict (properties_of (parameters self')))"
proof -
  from properties_container[of kwargs_present False] obtain self' where
    n: "normalise kwargs_present (init False) = Inr self'"
    and props: "\<forall>k \<in> set property_keys.
           fmlookup (properties_of (parameters self')) k
             = (if kwargs_present k = PNone then None else Some (kwargs_present k))"
    and container: "fmlookup (parameters self') ''properties''
         = (if \<forall>k \<in> set property_keys. kwargs_present k = PNone then None
            else Some (PDict (properties_of (parameters self'))))"
    by blast
  have sku: "kwargs_present ''sku'' = PDict sku_standard" and tenant: "kwargs_present ''tenant_id'' = PNone"
    by (simp_all add: kwargs_present_def kwargs_of_def)
  have mem: "''sku'' \<in> set property_keys" "''tenant_id'' \<in> set property_keys"
    by (simp_all add: property_keys_def)
  from mem(1) sku have some: "\<not> (\<forall>k \<in> set property_keys. kwargs_present k = PNone)"
    by force
  from props mem sku tenant have
    "fmlookup (properties_of (parameters self')) ''sku'' = Some (PDict sku_standard)"
    "fmlookup (properties_of (parameters self')) ''tenant_id'' = None"
    by simp_all
  with container some n show ?thesis
    by (intro exI[of _ self']) (simp del: set_simps)
qed

text \<open>
  \<^bold>\<open>C6.\<close> The normalised payload holds the \<^verbatim>\<open>location\<close> that was supplied, and none when
  none was supplied. Every call of \<^verbatim>\<open>create_or_update\<close> that an invocation makes carries
  a payload whose \<^verbatim>\<open>location\<close> is the one supplied, or else that of the resource group.
\<close>

theorem location_payload:
  "(\<exists>self'. normalise kwargs (init cm) = Inr self'
      \<and> fmlookup (parameters self') ''location''
          = (if kwargs ''location'' = PNone then None else Some (kwargs ''location'')))
   \<and> (rg_lookup r (kwargs ''resource_group'') = Inr location
        \<and> exec_module r kwargs (init cm) world0 = Some (out, w)
        \<and> VaultCreateOrUpdate rg name p \<in> set (trace w)
      \<longrightarrow> fmlookup p ''location''
            = Some (if kwargs ''location'' = PNone then location else kwargs ''location''))"
proof (intro conjI impI)
  from normalise_parameters[of kwargs cm] obtain self' where
    n: "normalise kwargs (init cm) = Inr self'" and p: "parameters self' = payload kwargs"
    by blast
  show "\<exists>self'. normalise kwargs (init cm) = Inr self'
      \<and> fmlookup (parameters self') ''location''
          = (if kwargs ''location'' = PNone then None else Some (kwargs ''location''))"
    by (rule exI[of _ self']) (simp only: n p payload_location simp_thms)
next
  assume a: "rg_lookup r (kwargs ''resource_group'') = Inr location
        \<and> exec_module r kwargs (init cm) world0 = Some (out, w)
        \<and> VaultCreateOrUpdate rg name p \<in> set (trace w)"
  then have ex: "exec_module r kwargs (init cm) world0 = Some (out, w)"
    and rgl: "rg_lookup r (kwargs ''resource_group'') = Inr location"
    and mem: "VaultCreateOrUpdate rg name p \<in> set (trace w)"
    by blast+
  from exec_module_trace[OF ex rgl] obtain rest where
    tr: "trace w = [ResourceGroupGet (kwargs ''resource_group''),
                    VaultGet (kwargs ''resource_group'') (kwargs ''vault_name'')] @ rest"
    and rest: "set rest \<subseteq> {VaultCreateOrUpdate (kwargs ''resource_group'') (kwargs ''vault_name'')
                              (dispatch_payload kwargs location),
                            VaultDelete (kwargs ''resource_group'') (kwargs ''vault_name''),
                            VaultGet (kwargs ''resource_group'') (kwargs ''vault_name''),
                            Sleep 20}"
    by blast
  from mem tr have "VaultCreateOrUpdate rg name p \<in> set rest" by simp
  with rest have "p = dispatch_payload kwargs location" by auto
  then show "fmlookup p ''location''
            = Some (if kwargs ''location'' = PNone then location else kwargs ''location'')"
    by (simp add: dispatch_payload_def payload_location)
qed

theorem location_payload_witness:
  "(\<exists>self'. normalise kwargs_located (init False) = Inr self'
      \<and> fmlookup (parameters self') ''location'' = Some (PStr ''eastus''))
   \<and> (\<exists>self'. normalise kwargs_present (init False) = Inr self'
      \<and> fmlookup (parameters self') ''location'' = None)
   \<and> (\<exists>out w p. exec_module remote_missing kwargs_present (init False) world0 = Some (out, w)
      \<and> VaultCreateOrUpdate (PStr ''rg1'') (PStr ''kv1'') p \<in> set (trace w)
      \<and> fmlookup p ''location'' = Some (PStr ''westus''))
   \<and> (\<exists>out w p. exec_module remote_missing kwargs_located (init False) world0 = Some (out, w)
      \<and> VaultCreateOrUpdate (PStr ''rg1'') (PStr ''kv1'') p \<in> set (trace w)
      \<and> fmlookup p ''location'' = Some (PStr ''eastus''))"
proof -
  have cr: "created remote_missing p = Some vault_kv1" for p
    by (simp add: created_def remote_missing_def)
  from location_payload[of kwargs_located False] have 1:
    "\<exists>self'. normalise kwargs_located (init False) = Inr self'
      \<and> fmlookup (parameters self') ''location'' = Some (PStr ''eastus'')"
    by (simp add: example_options)
  from location_payload[of kwargs_present False] have 2:
    "\<exists>self'. normalise kwargs_present (init False) = Inr self'
      \<and> fmlookup (parameters self') ''location'' = None"
    by (simp add: example_options)
  have 3: "\<exists>out w p. exec_module remote_missing kwargs (init False) world0 = Some (out, w)
      \<and> VaultCreateOrUpdate (PStr ''rg1'') (PStr ''kv1'') p \<in> set (trace w)
      \<and> fmlookup p ''location''
          = Some (if kwargs ''location'' = PNone then PStr ''westus'' else kwargs ''location'')"
    if st: "kwargs ''state'' = PStr ''present''" and rg: "kwargs ''resource_group'' = PStr ''rg1''"
      and name: "kwargs ''vault_name'' = PStr ''kv1''" for kwargs
  proof -
    let ?p = "dispatch_payload kwargs (PStr ''westus'')"
    from exec_module_create_update[where r = remote_missing and kwargs = kwargs
        and location = "PStr ''westus''" and new = vault_kv1 and i = "PStr ''/vaults/kv1''"
        and e = "''NotFound''"]
      example_lookups(1)[of "kwargs ''resource_group''"] st cr[of ?p] example_vaults(2)
      example_fetches(1)[of 0]
    obtain res where ex: "exec_module remote_missing kwargs (init False) world0 =
            Some (Inr res,
                  \<lparr> trace = [ResourceGroupGet (kwargs ''resource_group''),
                             VaultGet (kwargs ''resource_group'') (kwargs ''vault_name''),
                             VaultCreateOrUpdate (kwargs ''resource_group'') (kwargs ''vault_name'') ?p],
                    gets = 1 \<rparr>)"
      by blast
    let ?w = "\<lparr> trace = [ResourceGroupGet (kwargs ''resource_group''),
                             VaultGet (kwargs ''resource_group'') (kwargs ''vault_name''),
                             VaultCreateOrUpdate (kwargs ''resource_group'') (kwargs ''vault_name'') ?p],
                    gets = 1 \<rparr>"
    have mem: "VaultCreateOrUpdate (PStr ''rg1'') (PStr ''kv1'') ?p \<in> set (trace ?w)"
      by (simp add: rg name)
    from location_payload[of kwargs False remote_missing "PStr ''westus''" "Inr res" ?w
        "PStr ''rg1''" "PStr ''kv1''" ?p] example_lookups(1)[of "kwargs ''resource_group''"] ex mem
    have "fmlookup ?p ''location''
          = Some (if kwargs ''location'' = PNone then PStr ''westus'' else kwargs ''location'')"
      by blast
    with ex mem show ?thesis by blast
  qed
  from 3[of kwargs_present] 3[of kwargs_located] have 4:
    "\<exists>out w p. exec_module remote_missing kwargs_present (init False) world0 = Some (out, w)
      \<and> VaultCreateOrUpdate (PStr ''rg1'') (PStr ''kv1'') p \<in> set (trace w)
      \<and> fmlookup p ''location'' = Some (PStr ''westus'')"
    "\<exists>out w p. exec_module remote_missing kwargs_located (init False) world0 = Some (out, w)
      \<and> VaultCreateOrUpdate (PStr ''rg1'') (PStr ''kv1'') p \<in> set (trace w)
      \<and> fmlookup p ''location'' = Some (PStr ''eastus'')"
    by (simp_all add: example_options)
  from 1 2 4 show ?thesis by blast
qed

text \<open>
  \<^bold>\<open>C7.\<close> In check mode every invocation returns, none of its calls is
  \<^verbatim>\<open>create_or_update\<close> or \<^verbatim>\<open>delete\<close>, and \<^verbatim>\<open>changed\<close> is true exactly when the action
  selected is not \<^verbatim>\<open>NoAction\<close> (for the two desired states that the options admit).
\<close>

theorem check_mode_no_mutation:
  "\<exists>out w. exec_module r kwargs (init True) world0 = Some (out, w)
     \<and> (\<forall>c \<in> set (trace w). \<not> mutating c)
     \<and> (\<forall>a. selected_action r kwargs (init True) world0 = Some a
             \<and> (kwargs ''state'' = PStr ''present'' \<or> kwargs ''state'' = PStr ''absent'')
           \<longrightarrow> out = Inr (fmupd ''changed'' (PBool (a \<noteq> NoAction)) fmempty))"
proof (cases "rg_lookup r (kwargs ''resource_group'')")
  case (Inl msg)
  then show ?thesis
    by (simp add: exec_module_init selected_action_init)
next
  case (Inr location)
  then show ?thesis
    by (cases "fetched r 0")
      (auto simp: exec_module_init selected_action_init act_check_mode chosen_simps finish_def)
qed

theorem check_mode_no_mutation_witness:
  "(\<exists>w. exec_module remote_found kwargs_absent (init True) world0
           = Some (Inr (fmupd ''changed'' (PBool True) fmempty), w)
        \<and> (\<forall>c \<in> set (trace w). \<not> mutating c))
   \<and> (\<exists>w. exec_module remote_missing kwargs_absent (init True) world0
           = Some (Inr (fmupd ''changed'' (PBool False) fmempty), w)
        \<and> (\<forall>c \<in> set (trace w). \<not> mutating c))"
proof -
  have sel: "selected_action remote_found kwargs_absent (init True) world0 = Some Delete"
    "selected_action remote_missing kwargs_absent (init True) world0 = Some NoAction"
    by (simp_all add: selected_action_init example_lookups chosen_simps fetched_def example_fetches
        example_options example_vaults)
  from check_mode_no_mutation[of remote_found kwargs_absent] sel(1) example_options(1)
  have 1: "\<exists>w. exec_module remote_found kwargs_absent (init True) world0
           = Some (Inr (fmupd ''changed'' (PBool True) fmempty), w)
        \<and> (\<forall>c \<in> set (trace w). \<not> mutating c)"
    by auto
  from check_mode_no_mutation[of remote_missing kwargs_absent] sel(2) example_options(1)
  have 2: "\<exists>w. exec_module remote_missing kwargs_absent (init True) world0
           = Some (Inr (fmupd ''changed'' (PBool False) fmempty), w)
        \<and> (\<forall>c \<in> set (trace w). \<not> mutating c)"
    by auto
  from 1 2 show ?thesis by blast
qed

text \<open>
  \<^bold>\<open>C8.\<close> When \<^verbatim>\<open>vaults.get\<close> raises \<^verbatim>\<open>CloudError\<close> at the first fetch,
  \<^verbatim>\<open>get_keyvault\<close> returns \<^verbatim>\<open>False\<close>, the vault counts as absent, and the error goes no
  further: the invocation is the same whatever the error was, it selects \<^verbatim>\<open>NoAction\<close> or
  \<^verbatim>\<open>Create\<close>, and it succeeds unchanged when the vault shall be absent. This does not hold
  of every failure of the call: the handler (line 377) names \<^verbatim>\<open>CloudError\<close> only, and an
  exception of another class leaves \<^verbatim>\<open>get_keyvault\<close> and ends the invocation, as the last
  theorem shows.
\<close>

theorem get_failure_is_absent:
  assumes "vaults_get r 0 = Inl (CloudError e)"
  shows "fst (get_keyvault r self world0) = Inr (PBool False)
       \<and> exec_module (r\<lparr>vaults_get := (vaults_get r)(0 := Inl (CloudError e'))\<rparr>) kwargs (init cm) world0
           = exec_module r kwargs (init cm) world0
       \<and> (rg_lookup r (kwargs ''resource_group'') = Inr location \<longrightarrow>
            selected_action r kwargs (init cm) world0
              = Some (if kwargs ''state'' = PStr ''absent'' then NoAction else Create))
       \<and> (rg_lookup r (kwargs ''resource_group'') = Inr location \<and> kwargs ''state'' = PStr ''absent'' \<longrightarrow>
            exec_module r kwargs (init cm) world0
              = Some (Inr (fmupd ''changed'' (PBool False) fmempty),
                      \<lparr> trace = [ResourceGroupGet (kwargs ''resource_group''),
                                 VaultGet (kwargs ''resource_group'') (kwargs ''vault_name'')],
                        gets = 1 \<rparr>))"
proof -
  let ?r = "r\<lparr>vaults_get := (vaults_get r)(0 := Inl (CloudError e'))\<rparr>"
  have f0: "fetched r 0 = Inr (PBool False)" "fetched ?r 0 = Inr (PBool False)"
    using assms by (simp_all add: fetched_def)
  have 1: "fst (get_keyvault r self world0) = Inr (PBool False)"
    by (simp add: get_keyvault_eq world0_def f0)
  have act_same: "act ?r (PBool False) s w = act r (PBool False) s w" if "to_do s \<noteq> Delete" for s w
    using that by (simp add: act_def create_update_keyvault_def)
  have 2: "exec_module ?r kwargs (init cm) world0 = exec_module r kwargs (init cm) world0"
    by (simp add: exec_module_init f0 act_same chosen_simps split: sum.splits)
  have 3: "selected_action r kwargs (init cm) world0
              = Some (if kwargs ''state'' = PStr ''absent'' then NoAction else Create)"
    if "rg_lookup r (kwargs ''resource_group'') = Inr location"
    using that by (simp add: selected_action_init f0 chosen_simps)
  have 4: "exec_module r kwargs (init cm) world0
              = Some (Inr (fmupd ''changed'' (PBool False) fmempty),
                      \<lparr> trace = [ResourceGroupGet (kwargs ''resource_group''),
                                 VaultGet (kwargs ''resource_group'') (kwargs ''vault_name'')],
                        gets = 1 \<rparr>)"
    if "rg_lookup r (kwargs ''resource_group'') = Inr location" "kwargs ''state'' = PStr ''absent''"
    using that by (simp add: exec_module_init f0 act_def chosen_simps finish_def)
  from 1 2 3 4 show ?thesis by blast
qed

theorem get_failure_is_absent_witness:
  "fst (get_keyvault remote_missing (init False) world0) = Inr (PBool False)
   \<and> exec_module (remote_missing\<lparr>vaults_get := (vaults_get remote_missing)(0 := Inl (CloudError ''Timeout''))\<rparr>)
        kwargs_present (init False) world0
       = exec_module remote_missing kwargs_present (init False) world0
   \<and> selected_action remote_missing kwargs_absent (init False) world0 = Some NoAction
   \<and> exec_module remote_missing kwargs_absent (init False) world0
       = Some (Inr (fmupd ''changed'' (PBool False) fmempty),
               \<lparr> trace = [ResourceGroupGet (PStr ''rg1''), VaultGet (PStr ''rg1'') (PStr ''kv1'')],
                 gets = 1 \<rparr>)"
proof -
  note a = get_failure_is_absent[OF example_fetches(1)[of 0], where self = "init False"
      and e' = "''Timeout''" and kwargs = kwargs_present and cm = False]
  note b = get_failure_is_absent[OF example_fetches(1)[of 0], where kwargs = kwargs_absent
      and cm = False and location = "PStr ''westus''"]
  from a have 1: "fst (get_keyvault remote_missing (init False) world0) = Inr (PBool False)"
    and 2: "exec_module (remote_missing\<lparr>vaults_get := (vaults_get remote_missing)(0 := Inl (CloudError ''Timeout''))\<rparr>)
        kwargs_present (init False) world0
       = exec_module remote_missing kwargs_present (init False) world0"
    by blast+
  from b example_lookups(1)[of "kwargs_absent ''resource_group''"] example_options(1)
  have 3: "selected_action remote_missing kwargs_absent (init False) world0 = Some NoAction"
    and 4: "exec_module remote_missing kwargs_absent (init False) world0
       = Some (Inr (fmupd ''changed'' (PBool False) fmempty),
               \<lparr> trace = [ResourceGroupGet (kwargs_absent ''resource_group''),
                          VaultGet (kwargs_absent ''resource_group'') (kwargs_absent ''vault_name'')],
                 gets = 1 \<rparr>)"
    by simp_all
  from 1 2 3 4 show ?thesis
    by (simp only: example_options simp_thms)
qed

theorem get_failure_propagates_counterexample:
  "vaults_get remote_unreachable 0 = Inl (OtherError ''ClientRequestError'')
   \<and> fst (get_keyvault remote_unreachable (init False) world0) = Inl (Propagated ''ClientRequestError'')
   \<and> exec_module remote_unreachable kwargs_absent (init False) world0 =
       Some (Inl (Propagated ''ClientRequestError''),
             \<lparr> trace = [ResourceGroupGet (PStr ''rg1''), VaultGet (PStr ''rg1'') (PStr ''kv1'')],
               gets = 1 \<rparr>)"
  using exec_module_get_propagates[where r = remote_unreachable and kwargs = kwargs_absent
      and location = "PStr ''westus''" and x = "''ClientRequestError''" and cm = False]
  by (simp add: example_lookups example_options example_fetches get_keyvault_eq world0_def
      fetched_other_error)

text \<open>
  \<^bold>\<open>C9.\<close> Outside check mode, once the first fetch has returned, a \<^verbatim>\<open>CloudError\<close> of
  \<^verbatim>\<open>create_or_update\<close> (raised by the call or by its poller) ends the invocation with the
  message \<^verbatim>\<open>Error creating the Key Vault instance: \<close> and the text of the error, and one of
  \<^verbatim>\<open>delete\<close> with \<^verbatim>\<open>Error deleting the Key Vault instance: \<close> and the text. The failed
  call is the last one: it is not made again, and nothing is polled. This does not hold of
  every failure of these calls: the handlers (lines 342 and 357) name \<^verbatim>\<open>CloudError\<close> only,
  and an exception of another class ends the invocation without the message, as the last
  theorem shows.
\<close>

theorem remote_failure_aborts:
  assumes "rg_lookup r (kwargs ''resource_group'') = Inr location"
  shows "(kwargs ''state'' = PStr ''present'' \<and> fetched r 0 = Inr old
            \<and> raised r (dispatch_payload kwargs location) = Some (CloudError cause) \<longrightarrow>
            exec_module r kwargs (init False) world0 =
              Some (Inl (Fail (''Error creating the Key Vault instance: '' @ cause)),
                    \<lparr> trace = [ResourceGroupGet (kwargs ''resource_group''),
                               VaultGet (kwargs ''resource_group'') (kwargs ''vault_name''),
                               VaultCreateOrUpdate (kwargs ''resource_group'') (kwargs ''vault_name'')
                                 (dispatch_payload kwargs location)],
                      gets = 1 \<rparr>))
       \<and> (kwargs ''state'' = PStr ''absent'' \<and> vaults_get r 0 = Inr vault \<and> vault \<noteq> fmempty
            \<and> vaults_delete r = Inl (CloudError cause) \<longrightarrow>
            exec_module r kwargs (init False) world0 =
              Some (Inl (Fail (''Error deleting the Key Vault instance: '' @ cause)),
                    \<lparr> trace = [ResourceGroupGet (kwargs ''resource_group''),
                               VaultGet (kwargs ''resource_group'') (kwargs ''vault_name''),
                               VaultDelete (kwargs ''resource_group'') (kwargs ''vault_name'')],
                      gets = 1 \<rparr>))"
  using assms
  by (auto simp: exec_module_init act_def chosen_simps create_update_keyvault_raised delete_keyvault_eq
      fetched_vault)

theorem remote_failure_aborts_witness:
  "exec_module remote_failing kwargs_present (init False) world0 =
     Some (Inl (Fail ''Error creating the Key Vault instance: Forbidden''),
           \<lparr> trace = [ResourceGroupGet (PStr ''rg1''), VaultGet (PStr ''rg1'') (PStr ''kv1''),
                      VaultCreateOrUpdate (PStr ''rg1'') (PStr ''kv1'')
                        (dispatch_payload kwargs_present (PStr ''westus''))],
             gets = 1 \<rparr>)
   \<and> exec_module remote_failing kwargs_absent (init False) world0 =
     Some (Inl (Fail ''Error deleting the Key Vault instance: Forbidden''),
           \<lparr> trace = [ResourceGroupGet (PStr ''rg1''), VaultGet (PStr ''rg1'') (PStr ''kv1''),
                      VaultDelete (PStr ''rg1'') (PStr ''kv1'')],
             gets = 1 \<rparr>)"
proof -
  have r: "raised remote_failing (dispatch_payload kwargs_present (PStr ''westus'')) = Some (CloudError ''Forbidden'')"
    by (simp add: raised_def remote_failing_def)
  have d: "vaults_delete remote_failing = Inl (CloudError ''Forbidden'')"
    by (simp add: remote_failing_def)
  from remote_failure_aborts[where r = remote_failing and kwargs = kwargs_present
      and location = "PStr ''westus''" and cause = "''Forbidden''" and vault = vault_kv1
      and old = "PDict vault_kv1"]
    remote_failure_aborts[where r = remote_failing and kwargs = kwargs_absent
      and location = "PStr ''westus''" and cause = "''Forbidden''" and vault = vault_kv1
      and old = "PDict vault_kv1"]
  show ?thesis
    by (simp add: example_lookups example_options example_fetches example_vaults r d fetched_def)
qed

theorem remote_failure_unprefixed_counterexample:
  "vaults_create_or_update remote_invalid (dispatch_payload kwargs_present (PStr ''westus''))
     = CouRaises (OtherError ''ValidationError'')
   \<and> exec_module remote_invalid kwargs_present (init False) world0 =
       Some (Inl (Propagated ''ValidationError''),
             \<lparr> trace = [ResourceGroupGet (PStr ''rg1''), VaultGet (PStr ''rg1'') (PStr ''kv1''),
                        VaultCreateOrUpdate (PStr ''rg1'') (PStr ''kv1'')
                          (dispatch_payload kwargs_present (PStr ''westus''))],
               gets = 1 \<rparr>)"
proof -
  have r: "raised remote_invalid (dispatch_payload kwargs_present (PStr ''westus''))
             = Some (OtherError ''ValidationError'')"
    "vaults_create_or_update remote_invalid (dispatch_payload kwargs_present (PStr ''westus''))
       = CouRaises (OtherError ''ValidationError'')"
    by (simp_all add: raised_def remote_invalid_def)
  have f: "fetched remote_invalid 0 = Inr (PBool False)"
    by (simp add: fetched_cloud_error example_fetches)
  from exec_module_create_propagates[where r = remote_invalid and kwargs = kwargs_present
      and location = "PStr ''westus''" and x = "''ValidationError''", OF _ _ f r(1)] r(2)
  show ?thesis
    by (simp add: example_lookups example_options)
qed

text \<open>
  \<^bold>\<open>C10.\<close> Every invocation looks the resource group up before anything else: when the
  lookup fails the invocation fails with it and no vault call is made, whatever the desired
  state; when it succeeds, the payload holds a \<^verbatim>\<open>location\<close> (the group's, if none was
  supplied) before the vault is fetched, and the fetch is the next call.
\<close>

theorem resource_group_lookup_first:
  "snd (prepare r kwargs (init cm) world0)
     = \<lparr> trace = [ResourceGroupGet (kwargs ''resource_group'')], gets = 0 \<rparr>
   \<and> (rg_lookup r (kwargs ''resource_group'') = Inl msg \<longrightarrow>
        exec_module r kwargs (init cm) world0
          = Some (Inl (Fail msg), \<lparr> trace = [ResourceGroupGet (kwargs ''resource_group'')], gets = 0 \<rparr>))
   \<and> (rg_lookup r (kwargs ''resource_group'') = Inr location \<longrightarrow>
        (\<exists>self1. fst (prepare r kwargs (init cm) world0) = Inr self1
           \<and> fmlookup (parameters self1) ''location''
               = Some (if kwargs ''location'' = PNone then location else kwargs ''location'')))
   \<and> (exec_module r kwargs (init cm) world0 = Some (out, w) \<longrightarrow>
        (\<exists>rest. trace w = ResourceGroupGet (kwargs ''resource_group'') # rest
           \<and> (rest \<noteq> [] \<longrightarrow> hd rest = VaultGet (kwargs ''resource_group'') (kwargs ''vault_name''))))"
proof -
  have 1: "snd (prepare r kwargs (init cm) world0)
     = \<lparr> trace = [ResourceGroupGet (kwargs ''resource_group'')], gets = 0 \<rparr>"
    by (simp add: prepare_init split: sum.splits)
  have 2: "exec_module r kwargs (init cm) world0
          = Some (Inl (Fail msg), \<lparr> trace = [ResourceGroupGet (kwargs ''resource_group'')], gets = 0 \<rparr>)"
    if "rg_lookup r (kwargs ''resource_group'') = Inl msg"
    using that by (simp add: exec_module_init)
  have 3: "\<exists>self1. fst (prepare r kwargs (init cm) world0) = Inr self1
           \<and> fmlookup (parameters self1) ''location''
               = Some (if kwargs ''location'' = PNone then location else kwargs ''location'')"
    if "rg_lookup r (kwargs ''resource_group'') = Inr location"
    using that by (simp add: prepare_init prepared_simps dispatch_payload_def payload_location)
  have 4: "\<exists>rest. trace w = ResourceGroupGet (kwargs ''resource_group'') # rest
           \<and> (rest \<noteq> [] \<longrightarrow> hd rest = VaultGet (kwargs ''resource_group'') (kwargs ''vault_name''))"
    if ex: "exec_module r kwargs (init cm) world0 = Some (out, w)"
  proof (cases "rg_lookup r (kwargs ''resource_group'')")
    case (Inl m)
    with ex show ?thesis by (auto simp: exec_module_init)
  next
    case (Inr loc)
    from exec_module_trace[OF ex Inr] obtain rest where
      "trace w = [ResourceGroupGet (kwargs ''resource_group''),
                  VaultGet (kwargs ''resource_group'') (kwargs ''vault_name'')] @ rest"
      by blast
    then show ?thesis
      by (intro exI[of _ "VaultGet (kwargs ''resource_group'') (kwargs ''vault_name'') # rest"]) simp
  qed
  show ?thesis
    by (intro conjI impI) (rule 1, erule 2, erule 3, erule 4)
qed

theorem resource_group_lookup_first_witness:
  "exec_module remote_no_group kwargs_absent (init False) world0
     = Some (Inl (Fail ''Resource group rg1 not found''),
             \<lparr> trace = [ResourceGroupGet (PStr ''rg1'')], gets = 0 \<rparr>)
   \<and> snd (prepare remote_missing kwargs_present (init False) world0)
       = \<lparr> trace = [ResourceGroupGet (PStr ''rg1'')], gets = 0 \<rparr>
   \<and> (\<exists>self1. fst (prepare remote_missing kwargs_present (init False) world0) = Inr self1
         \<and> fmlookup (parameters self1) ''location'' = Some (PStr ''westus''))
   \<and> (\<exists>out w rest. exec_module remote_missing kwargs_absent (init False) world0 = Some (out, w)
         \<and> trace w = ResourceGroupGet (PStr ''rg1'') # rest
         \<and> hd rest = VaultGet (PStr ''rg1'') (PStr ''kv1''))"
proof -
  have ex: "exec_module remote_missing kwargs_absent (init False) world0
       = Some (Inr (fmupd ''changed'' (PBool False) fmempty),
               \<lparr> trace = [ResourceGroupGet (PStr ''rg1''), VaultGet (PStr ''rg1'') (PStr ''kv1'')],
                 gets = 1 \<rparr>)"
    by (simp add: exec_module_init example_lookups fetched_def example_fetches act_def chosen_simps
        finish_def example_options)
  note a = resource_group_lookup_first[where r = remote_no_group and kwargs = kwargs_absent
      and cm = False and msg = "''Resource group rg1 not found''"]
  note b = resource_group_lookup_first[where r = remote_missing and kwargs = kwargs_present
      and cm = False and location = "PStr ''westus''"]
  note c = resource_group_lookup_first[where r = remote_missing and kwargs = kwargs_absent
      and cm = False and out = "Inr (fmupd ''changed'' (PBool False) fmempty)"
      and w = "\<lparr> trace = [ResourceGroupGet (PStr ''rg1''), VaultGet (PStr ''rg1'') (PStr ''kv1'')],
                 gets = 1 \<rparr>"]
  from a have 1: "exec_module remote_no_group kwargs_absent (init False) world0
     = Some (Inl (Fail ''Resource group rg1 not found''),
             \<lparr> trace = [ResourceGroupGet (PStr ''rg1'')], gets = 0 \<rparr>)"
    by (simp add: example_lookups example_options)
  from b have 2: "snd (prepare remote_missing kwargs_present (init False) world0)
       = \<lparr> trace = [ResourceGroupGet (PStr ''rg1'')], gets = 0 \<rparr>"
    and 3: "\<exists>self1. fst (prepare remote_missing kwargs_present (init False) world0) = Inr self1
         \<and> fmlookup (parameters self1) ''location'' = Some (PStr ''westus'')"
    by (simp_all add: example_lookups example_options)
  from c ex have "\<exists>rest. [ResourceGroupGet (PStr ''rg1''), VaultGet (PStr ''rg1'') (PStr ''kv1'')]
                    = ResourceGroupGet (PStr ''rg1'') # rest
         \<and> (rest \<noteq> [] \<longrightarrow> hd rest = VaultGet (PStr ''rg1'') (PStr ''kv1''))"
    by (simp add: example_options)
  with ex have 4: "\<exists>out w rest. exec_module remote_missing kwargs_absent (init False) world0 = Some (out, w)
         \<and> trace w = ResourceGroupGet (PStr ''rg1'') # rest
         \<and> hd rest = VaultGet (PStr ''rg1'') (PStr ''kv1'')"
    by auto
  from 1 2 3 4 show ?thesis by blast
qed

end
